theory Spec2Isabelle
  imports Main "HOL-Library.Sublist" "HOL-Library.Char_ord"
begin

section \<open>Strings\<close>

text \<open>
  A JavaScript string is a sequence of UTF-16 code units. The subjects of validation are
  modelled as such: \<open>js_string\<close> is a list of numbers, each standing for one code unit
  (a code unit is below \<open>0x10000\<close>; nothing below depends on that bound).
  \<open>js_str\<close> gives the code units of a text written in ASCII.

  Texts that end up in a hook file (patterns, convention identifiers, examples, templates)
  are modelled as \<open>string\<close>, read as the UTF-8 bytes that \<open>fs.writeFileSync\<close> puts on
  disk; every character that the shell or the signature test looks at is ASCII, and an ASCII
  byte of a UTF-8 text is always a character of its own. The source's emoji are kept as the
  byte sequences found in \<open>src/extension.js\<close>.

  \<open>js_join sep xs\<close> is \<open>xs.join(sep)\<close>; \<open>str_includes s sub\<close> is \<open>s.includes(sub)\<close>;
  \<open>js_bool b\<close> is the text a boolean takes inside a template literal.
\<close>

type_synonym js_string = "int list"

definition js_str :: "string \<Rightarrow> js_string" where
  "js_str text = map of_char text"

fun js_join :: "string \<Rightarrow> string list \<Rightarrow> string" where
  "js_join sep [] = []"
| "js_join sep [x] = x"
| "js_join sep (x # y # ys) = x @ sep @ js_join sep (y # ys)"

fun str_includes :: "string \<Rightarrow> string \<Rightarrow> bool" where
  "str_includes [] sub = (sub = [])"
| "str_includes (c # cs) sub = (prefix sub (c # cs) \<or> str_includes cs sub)"

definition js_bool :: "bool \<Rightarrow> string" where
  "js_bool b = (if b then ''true'' else ''false'')"

section \<open>Property lookup\<close>

text \<open>
  \<open>obj[key]\<close> on an object literal finds the object's own properties and, failing that,
  the properties every object inherits from \<open>Object.prototype\<close>: the names of
  \<open>object_prototype_names\<close>, all bound to functions or objects, none of them a regular
  expression, a string or an array. \<open>js_get obj key\<close> tells the three outcomes apart;
  \<open>Undefined\<close> is the value \<open>undefined\<close>.

  \<open>or_default (js_get obj key) d\<close> is \<open>obj[key] || d\<close>: an own value (all own values
  below are truthy) or the default, and \<open>None\<close> when the lookup yields an inherited
  value, which is truthy and is not of the type of the own values.

  The only exception that the modelled code can raise outside of a \<open>try\<close> is the
  \<open>TypeError\<close> of calling a method that such an inherited value does not have.
\<close>

datatype js_error = TypeError

datatype 'a property = Own 'a | Inherited | Undefined

definition object_prototype_names :: "string list" where
  "object_prototype_names =
     [''constructor'', ''hasOwnProperty'', ''isPrototypeOf'', ''propertyIsEnumerable'',
      ''toLocaleString'', ''toString'', ''valueOf'', ''__proto__'',
      ''__defineGetter__'', ''__defineSetter__'', ''__lookupGetter__'', ''__lookupSetter__'']"

definition js_get :: "(string \<times> 'a) list \<Rightarrow> string \<Rightarrow> 'a property" where
  "js_get obj key =
     (case map_of obj key of
        Some v \<Rightarrow> Own v
      | None \<Rightarrow> if key \<in> set object_prototype_names then Inherited else Undefined)"

definition or_default :: "'a property \<Rightarrow> 'a \<Rightarrow> 'a option" where
  "or_default p d = (case p of Own v \<Rightarrow> Some v | Undefined \<Rightarrow> Some d | Inherited \<Rightarrow> None)"

section \<open>Regular expressions\<close>

text \<open>
  The fragment of ECMAScript regular expressions that the two built-in patterns are written
  in: the anchors \<open>^\<close> and \<open>$\<close> (no \<open>m\<close> flag, so they hold at the two ends of the
  input only), literal characters, character classes given by their ranges, the dot,
  sequence, alternation and the bounded or unbounded repetition \<open>r{lo,hi}\<close>. Groups only
  capture, which \<open>test\<close> does not observe. Without the \<open>u\<close> flag a pattern character
  matches one code unit, and the dot matches every code unit but the four line terminators
  (line feed, carriage return, U+2028, U+2029).

  \<open>rx_match r n s\<close> lists what is left of the suffix \<open>s\<close> after each way of matching
  \<open>r\<close> at its front; \<open>n\<close> is the length of the whole input, which \<open>^\<close> needs.
  \<open>match_rep\<close> iterates a matcher between \<open>lo\<close> and \<open>hi\<close> times; its fourth argument
  bounds the number of iterations and is set to \<open>length s + lo\<close>, which no sequence of
  iterations that consume input (and \<open>lo\<close> that need not) exceeds.
  \<open>regex_test r s\<close> is \<open>r.test(s)\<close> for a regular expression without flags: a search
  from every start position.
\<close>

datatype regex =
    Eps
  | Bol
  | Eol
  | Chr char
  | Cls "(char \<times> char) list"
  | Dot
  | Seq regex regex
  | Alt regex regex
  | Rep regex nat "nat option"

definition is_char :: "char \<Rightarrow> int \<Rightarrow> bool" where
  "is_char c u = (u = of_char c)"

definition in_class :: "(char \<times> char) list \<Rightarrow> int \<Rightarrow> bool" where
  "in_class rs u = list_ex (\<lambda>(lo, hi). of_char lo \<le> u \<and> u \<le> of_char hi) rs"

definition line_terminator :: "int \<Rightarrow> bool" where
  "line_terminator u = (u = 0x0A \<or> u = 0x0D \<or> u = 0x2028 \<or> u = 0x2029)"

fun match_one :: "(int \<Rightarrow> bool) \<Rightarrow> js_string \<Rightarrow> js_string list" where
  "match_one P [] = []"
| "match_one P (x # xs) = (if P x then [xs] else [])"

fun match_rep ::
  "(js_string \<Rightarrow> js_string list) \<Rightarrow> nat \<Rightarrow> nat option \<Rightarrow> nat \<Rightarrow> js_string \<Rightarrow> js_string list" where
  "match_rep f lo hi 0 s = (if lo = 0 then [s] else [])"
| "match_rep f lo hi (Suc k) s =
     (if lo = 0 then [s] else []) @
     (if hi = Some 0 then []
      else concat (map (match_rep f (lo - 1) (map_option (\<lambda>h. h - 1) hi) k) (f s)))"

primrec rx_match :: "regex \<Rightarrow> nat \<Rightarrow> js_string \<Rightarrow> js_string list" where
  "rx_match Eps n s = [s]"
| "rx_match Bol n s = (if length s = n then [s] else [])"
| "rx_match Eol n s = (if s = [] then [s] else [])"
| "rx_match (Chr c) n s = match_one (is_char c) s"
| "rx_match (Cls rs) n s = match_one (in_class rs) s"
| "rx_match Dot n s = match_one (\<lambda>u. \<not> line_terminator u) s"
| "rx_match (Seq a b) n s = concat (map (rx_match b n) (rx_match a n s))"
| "rx_match (Alt a b) n s = rx_match a n s @ rx_match b n s"
| "rx_match (Rep r lo hi) n s = match_rep (rx_match r n) lo hi (length s + lo) s"

fun tails :: "js_string \<Rightarrow> js_string list" where
  "tails [] = [[]]"
| "tails (x # xs) = (x # xs) # tails xs"

definition regex_test :: "regex \<Rightarrow> js_string \<Rightarrow> bool" where
  "regex_test r s = list_ex (\<lambda>t. rx_match r (length s) t \<noteq> []) (tails s)"

fun seqs :: "regex list \<Rightarrow> regex" where
  "seqs [] = Eps"
| "seqs [r] = r"
| "seqs (r # rs) = Seq r (seqs rs)"

fun alts :: "regex list \<Rightarrow> regex" where
  "alts [] = Eps"
| "alts [r] = r"
| "alts (r # rs) = Alt r (alts rs)"

definition lit :: "string \<Rightarrow> regex" where
  "lit w = seqs (map Chr w)"

definition rx_plus :: "regex \<Rightarrow> regex" where
  "rx_plus r = Rep r 1 None"

definition upper_cls :: regex where
  "upper_cls = Cls [(CHR ''A'', CHR ''Z'')]"

definition digit_cls :: regex where
  "digit_cls = Cls [(CHR ''0'', CHR ''9'')]"

definition slug_cls :: regex where
  "slug_cls = Cls [(CHR ''a'', CHR ''z''), (CHR ''0'', CHR ''9''), (CHR ''-'', CHR ''-'')]"

text \<open>
  The white space of ECMAScript, which is what \<open>String.prototype.trim\<close> strips: tab,
  line feed, vertical tab, form feed, carriage return, space, U+00A0, U+1680, U+2000 to
  U+200A, U+2028, U+2029, U+202F, U+205F, U+3000 and U+FEFF. \<open>ends_in P s\<close> holds of the
  subjects whose last code unit satisfies \<open>P\<close>.
\<close>

definition is_space :: "int \<Rightarrow> bool" where
  "is_space u =
     (u \<in> set [0x09, 0x0A, 0x0B, 0x0C, 0x0D, 0x20, 0xA0, 0x1680, 0x2028, 0x2029, 0x202F,
                0x205F, 0x3000, 0xFEFF] \<or>
      (0x2000 \<le> u \<and> u \<le> 0x200A))"

definition ends_in :: "(int \<Rightarrow> bool) \<Rightarrow> js_string \<Rightarrow> bool" where
  "ends_in P s = (s \<noteq> [] \<and> P (last s))"

section \<open>The pattern registry and the configuration\<close>

text \<open>
  \<open>BRANCH_PATTERNS.jira\<close> is
  \<^verbatim>\<open>/^(feature|bugfix|hotfix|release|chore)\/[A-Z]+-[0-9]+-[a-z0-9-]+$/\<close>
  and \<open>COMMIT_PATTERNS.jira\<close> is
  \<^verbatim>\<open>/^\[[A-Z]+-[0-9]+\] (feat|fix|docs|style|refactor|test|chore)\([a-z0-9-]+\): .{1,80}$/\<close>.
  Both objects have the single own key \<open>jira\<close>.
\<close>

definition jira_branch_regex :: regex where
  "jira_branch_regex = seqs
     [Bol,
      alts [lit ''feature'', lit ''bugfix'', lit ''hotfix'', lit ''release'', lit ''chore''],
      Chr CHR ''/'',
      rx_plus upper_cls,
      Chr CHR ''-'',
      rx_plus digit_cls,
      Chr CHR ''-'',
      rx_plus slug_cls,
      Eol]"

definition jira_commit_regex :: regex where
  "jira_commit_regex = seqs
     [Bol,
      Chr CHR ''['',
      rx_plus upper_cls,
      Chr CHR ''-'',
      rx_plus digit_cls,
      Chr CHR '']'',
      Chr CHR '' '',
      alts [lit ''feat'', lit ''fix'', lit ''docs'', lit ''style'', lit ''refactor'',
            lit ''test'', lit ''chore''],
      Chr CHR ''('',
      rx_plus slug_cls,
      Chr CHR '')'',
      Chr CHR '':'',
      Chr CHR '' '',
      Rep Dot 1 (Some 80),
      Eol]"

definition BRANCH_PATTERNS :: "(string \<times> regex) list" where
  "BRANCH_PATTERNS = [(''jira'', jira_branch_regex)]"

definition COMMIT_PATTERNS :: "(string \<times> regex) list" where
  "COMMIT_PATTERNS = [(''jira'', jira_commit_regex)]"

text \<open>
  The configuration object of \<open>getConfig\<close> and \<open>getHookConfig\<close>, with values of the
  types that the settings declare, and its defaults.
\<close>

record config =
  branchPattern :: string
  commitPattern :: string
  enableBranchValidation :: bool
  enableCommitValidation :: bool
  customBranchPattern :: string
  customCommitPattern :: string

definition default_config :: config where
  "default_config =
     \<lparr>branchPattern = ''jira'', commitPattern = ''jira'',
      enableBranchValidation = True, enableCommitValidation = True,
      customBranchPattern = [], customCommitPattern = []\<rparr>"

section \<open>In-process validation\<close>

text \<open>
  \<open>validateBranchName\<close> and \<open>validateCommitMessage\<close> read the live configuration
  (\<open>getConfig()\<close>, here the argument \<open>config\<close>) and compile a custom pattern with the
  platform's \<open>RegExp\<close> constructor, here the argument \<open>RegExp_new\<close>: \<open>None\<close> is the
  \<open>SyntaxError\<close> it throws, and a compiled expression is given by its \<open>test\<close> method,
  a predicate on subjects (an expression built without flags keeps no state between
  calls). The result pairs the messages passed to \<open>vscode.window.showErrorMessage\<close>
  with the value returned, or with the exception raised: for an identifier that names an
  inherited property, \<open>regex\<close> is a truthy value without a \<open>test\<close> method.
\<close>

definition validateBranchName ::
  "(string \<Rightarrow> (js_string \<Rightarrow> bool) option) \<Rightarrow> config \<Rightarrow> js_string \<Rightarrow> string \<Rightarrow>
     string list \<times> (js_error + bool)" where
  "validateBranchName RegExp_new config branchName pattern =
     (if pattern = ''custom'' \<and> customBranchPattern config \<noteq> []
      then (case RegExp_new (customBranchPattern config) of
              None \<Rightarrow> ([''Invalid custom branch pattern in settings''], Inr False)
            | Some test \<Rightarrow> ([], Inr (test branchName)))
      else (case js_get BRANCH_PATTERNS pattern of
              Undefined \<Rightarrow> ([], Inr False)
            | Inherited \<Rightarrow> ([], Inl TypeError)
            | Own regex \<Rightarrow> ([], Inr (regex_test regex branchName))))"

definition validateCommitMessage ::
  "(string \<Rightarrow> (js_string \<Rightarrow> bool) option) \<Rightarrow> config \<Rightarrow> js_string \<Rightarrow> string \<Rightarrow>
     string list \<times> (js_error + bool)" where
  "validateCommitMessage RegExp_new config message pattern =
     (if pattern = ''custom'' \<and> customCommitPattern config \<noteq> []
      then (case RegExp_new (customCommitPattern config) of
              None \<Rightarrow> ([''Invalid custom commit pattern in settings''], Inr False)
            | Some test \<Rightarrow> ([], Inr (test message)))
      else (case js_get COMMIT_PATTERNS pattern of
              Undefined \<Rightarrow> ([], Inr False)
            | Inherited \<Rightarrow> ([], Inl TypeError)
            | Own regex \<Rightarrow> ([], Inr (regex_test regex message))))"

definition jira_branch_examples :: "string list" where
  "jira_branch_examples =
     [''feature/APC-2876-user-auth'', ''bugfix/APC-1234-login-fix'',
      ''hotfix/APC-5678-security-patch'', ''release/APC-9999-v2-release'',
      ''chore/APC-1111-update-deps'']"

definition jira_commit_examples :: "string list" where
  "jira_commit_examples =
     [''[APC-2356] feat(auth): Add Login Functionality'',
      ''[APC-1234] fix(ui): Resolve button alignment issue'',
      ''[APC-5678] docs(readme): Update installation guide'',
      ''[APC-9999] refactor(api): Simplify user service'']"

text \<open>
  \<open>getBranchExamples\<close> and \<open>getCommitExamples\<close> return \<open>examples[pattern] ||
  examples.jira\<close>: a list of examples, or (\<open>None\<close>) an inherited value that is no list.
\<close>

definition getBranchExamples :: "string \<Rightarrow> string list option" where
  "getBranchExamples pattern =
     or_default (js_get [(''jira'', jira_branch_examples)] pattern) jira_branch_examples"

definition getCommitExamples :: "string \<Rightarrow> string list option" where
  "getCommitExamples pattern =
     or_default (js_get [(''jira'', jira_commit_examples)] pattern) jira_commit_examples"

text \<open>
  A stand-in for the \<open>RegExp\<close> constructor at the two pattern texts the concrete instances
  below use: \<open>new RegExp("a")\<close> is \<open>/a/\<close>, and \<open>new RegExp("(")\<close> throws.
\<close>

definition sample_RegExp :: "string \<Rightarrow> (js_string \<Rightarrow> bool) option" where
  "sample_RegExp text = (if text = ''a'' then Some (regex_test (Chr CHR ''a'')) else None)"

section \<open>Hook script synthesis\<close>

text \<open>
  The byte sequences that stand where the source file has its emoji.
\<close>

definition cross_mark :: string where
  "cross_mark = [CHR 0xE2, CHR 0x80, CHR 0x9A, CHR 0xC3, CHR 0xB9, CHR 0xC3, CHR 0xA5]"

definition bulb :: string where
  "bulb = [CHR 0xEF, CHR 0xA3, CHR 0xBF, CHR 0xC3, CHR 0xBC, CHR 0xC3, CHR 0xAD, CHR 0xC2, CHR 0xB0]"

definition check_mark :: string where
  "check_mark = [CHR 0xE2, CHR 0x80, CHR 0x9A, CHR 0xC3, CHR 0xBA, CHR 0xC3, CHR 0x96]"

definition warning_sign :: string where
  "warning_sign =
     [CHR 0xE2, CHR 0x80, CHR 0x9A, CHR 0xC3, CHR 0xB6, CHR 0xE2, CHR 0x80, CHR 0xA0,
      CHR 0xC3, CHR 0x94, CHR 0xE2, CHR 0x88, CHR 0x8F, CHR 0xC3, CHR 0xA8]"

text \<open>
  The pattern texts of \<open>generateBranchValidationScript\<close> and
  \<open>generateCommitValidationScript\<close> (their local object \<open>patterns\<close>); the commit text
  holds four backslashes, written \<open>CHR 0x5C\<close>:
  \<^verbatim>\<open>^\[[A-Z]+-[0-9]+\] (feat|fix|docs|style|refactor|test|chore)\([a-z0-9-]+\): .{1,80}$\<close>.
\<close>

definition jira_branch_text :: string where
  "jira_branch_text = ''^(feature|bugfix|hotfix|release|chore)/[A-Z]+-[0-9]+-[a-z0-9-]+$''"

definition jira_commit_text :: string where
  "jira_commit_text =
     ''^'' @ [CHR 0x5C] @ ''[[A-Z]+-[0-9]+'' @ [CHR 0x5C] @
     ''] (feat|fix|docs|style|refactor|test|chore)'' @ [CHR 0x5C] @ ''([a-z0-9-]+'' @
     [CHR 0x5C] @ ''): .{1,80}$''"

text \<open>
  The locals \<open>pattern\<close> and \<open>exampleList\<close> of the two generators:
  \<^verbatim>\<open>config.branchPattern === 'custom' && config.customBranchPattern
      ? config.customBranchPattern : patterns[config.branchPattern] || patterns.jira\<close> and
  \<^verbatim>\<open>config.branchPattern === 'custom'
      ? ['custom-pattern-example'] : examples[config.branchPattern] || examples.jira\<close>.
  For an identifier that names an inherited property both are that inherited value
  (\<open>None\<close>): no text and no array.
\<close>

definition branch_hook_pattern :: "config \<Rightarrow> string option" where
  "branch_hook_pattern config =
     (if branchPattern config = ''custom'' \<and> customBranchPattern config \<noteq> []
      then Some (customBranchPattern config)
      else or_default (js_get [(''jira'', jira_branch_text)] (branchPattern config))
             jira_branch_text)"

definition branch_hook_exampleList :: "config \<Rightarrow> string list option" where
  "branch_hook_exampleList config =
     (if branchPattern config = ''custom'' then Some [''custom-pattern-example'']
      else or_default (js_get [(''jira'', jira_branch_examples)] (branchPattern config))
             jira_branch_examples)"

definition commit_hook_pattern :: "config \<Rightarrow> string option" where
  "commit_hook_pattern config =
     (if commitPattern config = ''custom'' \<and> customCommitPattern config \<noteq> []
      then Some (customCommitPattern config)
      else or_default (js_get [(''jira'', jira_commit_text)] (commitPattern config))
             jira_commit_text)"

definition commit_hook_exampleList :: "config \<Rightarrow> string list option" where
  "commit_hook_exampleList config =
     (if commitPattern config = ''custom'' then Some [''custom-pattern-example'']
      else or_default (js_get [(''jira'', jira_commit_examples)] (commitPattern config))
             jira_commit_examples)"

text \<open>The inner template \<^verbatim>\<open>echo "  ${ex}"\<close> of the example lines.\<close>

definition echo_example :: "string \<Rightarrow> string" where
  \<open>echo_example ex = ''echo "  '' @ ex @ ''"''\<close>

text \<open>
  The templates, one list entry per piece of a line; \<open>\<newline>\<close> is the line break of the
  template literal. A template literal cooks its escapes, so the \<^verbatim>\<open>\/\<close> of the
  pre-push template's \<open>sed\<close> line reaches the file as \<open>/\<close>.

  The two generators evaluate \<open>exampleList.map(...)\<close> inside their template; when
  \<open>exampleList\<close> is an inherited value, which has no method \<open>map\<close>, that call raises a
  \<open>TypeError\<close> and no script is returned. (\<open>pattern\<close> is an inherited value exactly
  when \<open>exampleList\<close> is: lemma \<open>hook_pattern_None\<close> below.)
\<close>

definition generateBranchValidationScript :: "config \<Rightarrow> js_error + string" where
  \<open>generateBranchValidationScript config =
     (case (branch_hook_pattern config, branch_hook_exampleList config) of
        (Some pattern, Some exampleList) \<Rightarrow> Inr (concat
          [''\<newline>'',
           ''validate_branch_name() {\<newline>'',
           ''    local branch_name="$1"\<newline>'',
           ''    local pattern="'', pattern, ''"\<newline>'',
           ''    \<newline>'',
           ''    if ! echo "$branch_name" | grep -qE "$pattern"; then\<newline>'',
           ''        echo "'', cross_mark, '' Branch name '$branch_name' doesn't follow the '', branchPattern config, '' convention."\<newline>'',
           ''        echo ""\<newline>'',
           ''        echo "Examples:"\<newline>'',
           ''        '', js_join ''\<newline>        '' (map echo_example exampleList), ''\<newline>'',
           ''        echo ""\<newline>'',
           ''        echo "Current pattern: $pattern"\<newline>'',
           ''        return 1\<newline>'',
           ''    fi\<newline>'',
           ''    return 0\<newline>'',
           ''}''])
      | _ \<Rightarrow> Inl TypeError)\<close>

definition generateCommitValidationScript :: "config \<Rightarrow> js_error + string" where
  \<open>generateCommitValidationScript config =
     (case (commit_hook_pattern config, commit_hook_exampleList config) of
        (Some pattern, Some exampleList) \<Rightarrow> Inr (concat
          [''\<newline>'',
           ''validate_commit_message() {\<newline>'',
           ''    local commit_message="$1"\<newline>'',
           ''    local pattern="'', pattern, ''"\<newline>'',
           ''    \<newline>'',
           ''    if ! echo "$commit_message" | grep -qE "$pattern"; then\<newline>'',
           ''        echo "'', cross_mark, '' Commit message doesn't follow the '', commitPattern config, '' convention."\<newline>'',
           ''        echo ""\<newline>'',
           ''        echo "Examples:"\<newline>'',
           ''        '', js_join ''\<newline>        '' (map echo_example exampleList), ''\<newline>'',
           ''        echo ""\<newline>'',
           ''        echo "Current pattern: $pattern"\<newline>'',
           ''        return 1\<newline>'',
           ''    fi\<newline>'',
           ''    return 0\<newline>'',
           ''}''])
      | _ \<Rightarrow> Inl TypeError)\<close>

text \<open>
  The four template literals of \<open>installGitHooks\<close>. Each evaluates
  \<^verbatim>\<open>${config.enableBranchValidation ? generateBranchValidationScript(config) : ''}\<close>
  (respectively the commit variant) first, here \<open>branch_validation\<close> and
  \<open>commit_validation\<close>, and an exception of the generator leaves the template without a
  value.
\<close>

definition branch_validation :: "config \<Rightarrow> js_error + string" where
  "branch_validation config =
     (if enableBranchValidation config then generateBranchValidationScript config else Inr [])"

definition commit_validation :: "config \<Rightarrow> js_error + string" where
  "commit_validation config =
     (if enableCommitValidation config then generateCommitValidationScript config else Inr [])"

definition preCommitContent :: "config \<Rightarrow> js_error + string" where
  \<open>preCommitContent config =
     (case branch_validation config of
        Inl error \<Rightarrow> Inl error
      | Inr validation \<Rightarrow> Inr (concat
          [''#!/bin/sh\<newline>'',
           ''# VS Code Validate Branch Extension - Pre-commit hook\<newline>'',
           ''# This hook validates the current branch name before allowing commits\<newline>'',
           ''\<newline>'',
           validation, ''\<newline>'',
           ''\<newline>'',
           ''if [ "'', js_bool (enableBranchValidation config), ''" = "true" ]; then\<newline>'',
           ''    current_branch=$(git branch --show-current 2>/dev/null || git rev-parse --abbrev-ref HEAD 2>/dev/null)\<newline>'',
           ''    \<newline>'',
           ''    if [ -n "$current_branch" ] && [ "$current_branch" != "HEAD" ]; then\<newline>'',
           ''        if ! validate_branch_name "$current_branch"; then\<newline>'',
           ''            echo ""\<newline>'',
           ''            echo "'', bulb, '' Tip: Use 'Validate Branch: Create New Branch' command in VS Code for guided branch creation."\<newline>'',
           ''            echo "'', bulb, '' Or rename this branch: git branch -m <new-valid-name>"\<newline>'',
           ''            exit 1\<newline>'',
           ''        fi\<newline>'',
           ''    fi\<newline>'',
           ''fi\<newline>'',
           ''\<newline>'',
           ''echo "'', check_mark, '' Branch name validation passed"\<newline>'']))\<close>

definition commitMsgContent :: "config \<Rightarrow> js_error + string" where
  \<open>commitMsgContent config =
     (case commit_validation config of
        Inl error \<Rightarrow> Inl error
      | Inr validation \<Rightarrow> Inr (concat
          [''#!/bin/sh\<newline>'',
           ''# VS Code Validate Branch Extension - Commit message hook\<newline>'',
           ''# This hook validates commit messages\<newline>'',
           ''\<newline>'',
           validation, ''\<newline>'',
           ''\<newline>'',
           ''if [ "'', js_bool (enableCommitValidation config), ''" = "true" ]; then\<newline>'',
           ''    commit_message=$(cat "$1")\<newline>'',
           ''    \<newline>'',
           ''    if ! validate_commit_message "$commit_message"; then\<newline>'',
           ''        echo ""\<newline>'',
           ''        echo "'', bulb, '' Tip: Use 'Validate Branch: Create Commit' command in VS Code for guided commit creation."\<newline>'',
           ''        exit 1\<newline>'',
           ''    fi\<newline>'',
           ''fi\<newline>'',
           ''\<newline>'',
           ''echo "'', check_mark, '' Commit message validation passed"\<newline>'']))\<close>

definition prePushContent :: "config \<Rightarrow> js_error + string" where
  \<open>prePushContent config =
     (case branch_validation config of
        Inl error \<Rightarrow> Inl error
      | Inr validation \<Rightarrow> Inr (concat
          [''#!/bin/sh\<newline>'',
           ''# VS Code Validate Branch Extension - Pre-push hook\<newline>'',
           ''# This hook validates branch names before they are pushed to remote\<newline>'',
           ''\<newline>'',
           validation, ''\<newline>'',
           ''\<newline>'',
           ''if [ "'', js_bool (enableBranchValidation config), ''" = "true" ]; then\<newline>'',
           ''    # Read from stdin: local_ref local_sha remote_ref remote_sha\<newline>'',
           ''    while read local_ref local_sha remote_ref remote_sha; do\<newline>'',
           ''        # Extract branch name from ref\<newline>'',
           ''        if [ "$local_ref" != "(delete)" ]; then\<newline>'',
           ''            branch_name=$(echo "$local_ref" | sed 's/refs/heads///')\<newline>'',
           ''            \<newline>'',
           ''            if [ -n "$branch_name" ]; then\<newline>'',
           ''                if ! validate_branch_name "$branch_name"; then\<newline>'',
           ''                    echo ""\<newline>'',
           ''                    echo "'', bulb, '' Tip: Rename your branch before pushing: git branch -m <new-valid-name>"\<newline>'',
           ''                    echo "'', bulb, '' Or use 'Validate Branch: Create New Branch' command in VS Code for guided branch creation."\<newline>'',
           ''                    exit 1\<newline>'',
           ''                fi\<newline>'',
           ''            fi\<newline>'',
           ''        fi\<newline>'',
           ''    done\<newline>'',
           ''fi\<newline>'',
           ''\<newline>'',
           ''echo "'', check_mark, '' Branch name validation passed for push"\<newline>'']))\<close>

definition postCheckoutContent :: "config \<Rightarrow> js_error + string" where
  \<open>postCheckoutContent config =
     (case branch_validation config of
        Inl error \<Rightarrow> Inl error
      | Inr validation \<Rightarrow> Inr (concat
          [''#!/bin/sh\<newline>'',
           ''# VS Code Validate Branch Extension - Post-checkout hook\<newline>'',
           ''# This hook warns about invalid branch names after checkout or branch creation\<newline>'',
           ''\<newline>'',
           validation, ''\<newline>'',
           ''\<newline>'',
           ''# Arguments: previous_head new_head branch_flag\<newline>'',
           ''previous_head=$1\<newline>'',
           ''new_head=$2\<newline>'',
           ''branch_flag=$3\<newline>'',
           ''\<newline>'',
           ''# Only validate if this is a branch checkout (branch_flag = 1)\<newline>'',
           ''if [ "$branch_flag" = "1" ] && [ "'', js_bool (enableBranchValidation config), ''" = "true" ]; then\<newline>'',
           ''    current_branch=$(git branch --show-current 2>/dev/null || git rev-parse --abbrev-ref HEAD 2>/dev/null)\<newline>'',
           ''    \<newline>'',
           ''    if [ -n "$current_branch" ] && [ "$current_branch" != "HEAD" ]; then\<newline>'',
           ''        if ! validate_branch_name "$current_branch"; then\<newline>'',
           ''            echo ""\<newline>'',
           ''            echo "'', warning_sign, ''  WARNING: Branch name '$current_branch' doesn't follow naming conventions!"\<newline>'',
           ''            echo "'', bulb, '' This branch will be blocked from commits and pushes until renamed."\<newline>'',
           ''            echo "'', bulb, '' To rename: git branch -m <new-valid-name>"\<newline>'',
           ''            echo "'', bulb, '' Or use 'Validate Branch: Create New Branch' command in VS Code for guided branch creation."\<newline>'',
           ''            echo ""\<newline>'',
           ''        else\<newline>'',
           ''            echo "'', check_mark, '' Branch name follows '', branchPattern config, '' convention"\<newline>'',
           ''        fi\<newline>'',
           ''    fi\<newline>'',
           ''fi\<newline>'']))\<close>

section \<open>Shell double quotes\<close>




definition emit :: "string \<Rightarrow> (string \<times> string) option \<Rightarrow> (string \<times> string) option" where
  "emit pre r = map_option (\<lambda>(v, rest). (pre @ v, rest)) r"













section \<open>The hook files\<close>

text \<open>
  The file system holds regular files with their contents and directories, and it may
  refuse an operation on a path: \<open>refuses fs op path\<close>. The refusals are the
  environment's and are given with the state; they stand for every reason the system has
  to reject the call (permissions, a read-only volume, a regular file where a directory is
  needed, as the \<open>.git\<close> of a linked worktree), and the model does not derive them from
  the tree of paths. What the model does derive from the state: reading or deleting fails
  where there is no regular file, writing fails where there is a directory, and nothing
  can be created at a path that is \<open>blocked\<close>, that is, below a regular file
  (\<open>ancestors path\<close> are the proper prefixes of \<open>path\<close> that end before a \<open>/\<close>).
  Each call of \<open>fs\<close> returns \<open>None\<close> where Node throws; the callers below catch
  that. File modes and the console are left out. \<open>readFileSync(path, 'utf8')\<close> decodes
  the bytes; the signature searched for is ASCII, so the search is the same on the bytes.

  \<open>path.join\<close> is the platform's, here the argument \<open>join\<close> of every function that
  builds a path. \<open>posix_join\<close> is what it computes on POSIX for parts that need no
  normalising, and is used in the concrete instances only.
\<close>

datatype fs_op = Mkdir | Write | Read | Unlink

record filesystem =
  files :: "string \<rightharpoonup> string"
  dirs :: "string set"
  refuses :: "fs_op \<Rightarrow> string \<Rightarrow> bool"

definition ancestors :: "string \<Rightarrow> string list" where
  "ancestors path =
     map (\<lambda>i. take i path) (filter (\<lambda>i. path ! i = CHR ''/'') [1..<length path])"

definition blocked :: "filesystem \<Rightarrow> string \<Rightarrow> bool" where
  "blocked fs path = list_ex (\<lambda>a. files fs a \<noteq> None) (ancestors path)"

definition existsSync :: "filesystem \<Rightarrow> string \<Rightarrow> bool" where
  "existsSync fs path = (files fs path \<noteq> None \<or> path \<in> dirs fs)"

definition mkdirSync :: "filesystem \<Rightarrow> string \<Rightarrow> filesystem option" where
  "mkdirSync fs path =
     (if refuses fs Mkdir path \<or> files fs path \<noteq> None \<or> blocked fs path then None
      else Some (fs\<lparr>dirs := insert path (dirs fs)\<rparr>))"

definition writeFileSync :: "filesystem \<Rightarrow> string \<Rightarrow> string \<Rightarrow> filesystem option" where
  "writeFileSync fs path content =
     (if refuses fs Write path \<or> path \<in> dirs fs \<or> blocked fs path then None
      else Some (fs\<lparr>files := (files fs)(path \<mapsto> content)\<rparr>))"

definition readFileSync :: "filesystem \<Rightarrow> string \<Rightarrow> string option" where
  "readFileSync fs path =
     (case files fs path of
        None \<Rightarrow> None
      | Some content \<Rightarrow> if refuses fs Read path then None else Some content)"

definition unlinkSync :: "filesystem \<Rightarrow> string \<Rightarrow> filesystem option" where
  "unlinkSync fs path =
     (if refuses fs Unlink path \<or> files fs path = None then None
      else Some (fs\<lparr>files := (files fs)(path := None)\<rparr>))"

definition posix_join :: "string list \<Rightarrow> string" where
  "posix_join parts = js_join ''/'' parts"

definition hooksDir :: "(string list \<Rightarrow> string) \<Rightarrow> string \<Rightarrow> string" where
  "hooksDir join workspacePath = join [workspacePath, ''.git'', ''hooks'']"

definition preCommitHook :: "(string list \<Rightarrow> string) \<Rightarrow> string \<Rightarrow> string" where
  "preCommitHook join workspacePath = join [hooksDir join workspacePath, ''pre-commit'']"

definition commitMsgHook :: "(string list \<Rightarrow> string) \<Rightarrow> string \<Rightarrow> string" where
  "commitMsgHook join workspacePath = join [hooksDir join workspacePath, ''commit-msg'']"

definition postCheckoutHook :: "(string list \<Rightarrow> string) \<Rightarrow> string \<Rightarrow> string" where
  "postCheckoutHook join workspacePath = join [hooksDir join workspacePath, ''post-checkout'']"

definition prePushHook :: "(string list \<Rightarrow> string) \<Rightarrow> string \<Rightarrow> string" where
  "prePushHook join workspacePath = join [hooksDir join workspacePath, ''pre-push'']"

definition extensionSignature :: string where
  "extensionSignature = ''# VS Code Validate Branch Extension''"

text \<open>
  The body of the \<open>forEach\<close> of \<open>removeGitHooks\<close>, for one hook path: an exception of
  \<open>readFileSync\<close> or \<open>unlinkSync\<close> is caught and logged, and the file stays.
\<close>

definition remove_hook :: "filesystem \<Rightarrow> string \<Rightarrow> filesystem" where
  "remove_hook fs hookPath =
     (if existsSync fs hookPath
      then (case readFileSync fs hookPath of
              None \<Rightarrow> fs
            | Some content \<Rightarrow>
                if str_includes content extensionSignature
                then (case unlinkSync fs hookPath of None \<Rightarrow> fs | Some fs' \<Rightarrow> fs')
                else fs)
      else fs)"

text \<open>
  \<open>removable fs path\<close>: there is a regular file at \<open>path\<close> that can be read, carries
  the signature and can be deleted. These are the files that \<open>remove_hook\<close> deletes
  (lemma \<open>remove_hook_eq\<close> below).
\<close>

definition removable :: "filesystem \<Rightarrow> string \<Rightarrow> bool" where
  "removable fs path =
     (case files fs path of
        None \<Rightarrow> False
      | Some content \<Rightarrow>
          \<not> refuses fs Read path \<and> str_includes content extensionSignature \<and>
          \<not> refuses fs Unlink path)"

definition removeGitHooks :: "(string list \<Rightarrow> string) \<Rightarrow> filesystem \<Rightarrow> string \<Rightarrow> filesystem" where
  "removeGitHooks join fs workspacePath =
     foldl remove_hook fs
       [preCommitHook join workspacePath, commitMsgHook join workspacePath,
        postCheckoutHook join workspacePath, prePushHook join workspacePath]"

text \<open>
  \<open>installGitHooks\<close> takes the configuration that \<open>getHookConfig(workspacePath)\<close>
  returns. It builds the four contents first; an exception there leaves the function
  (\<open>InstallThrew\<close>) before anything is written. Inside its \<open>try\<close> it creates the
  hooks directory when that does not exist and writes the four files in the order
  pre-commit, commit-msg, post-checkout, pre-push; the first call of \<open>fs\<close> that throws
  ends the block, what was written before stays, and the error is shown
  (\<open>InstallFailed\<close>: \<open>Failed to install git hooks: ...\<close>). \<open>Installed\<close> is the
  information message at the end of the block.
\<close>

datatype install_outcome = Installed | InstallFailed | InstallThrew

fun write_all :: "filesystem \<Rightarrow> (string \<times> string) list \<Rightarrow> filesystem \<times> install_outcome" where
  "write_all fs [] = (fs, Installed)"
| "write_all fs ((path, content) # rest) =
     (case writeFileSync fs path content of
        None \<Rightarrow> (fs, InstallFailed)
      | Some fs' \<Rightarrow> write_all fs' rest)"

definition installGitHooks ::
  "(string list \<Rightarrow> string) \<Rightarrow> filesystem \<Rightarrow> string \<Rightarrow> config \<Rightarrow> filesystem \<times> install_outcome" where
  "installGitHooks join fs workspacePath config =
     (case preCommitContent config of
        Inl error \<Rightarrow> (fs, InstallThrew)
      | Inr preCommit \<Rightarrow>
     (case commitMsgContent config of
        Inl error \<Rightarrow> (fs, InstallThrew)
      | Inr commitMsg \<Rightarrow>
     (case prePushContent config of
        Inl error \<Rightarrow> (fs, InstallThrew)
      | Inr prePush \<Rightarrow>
     (case postCheckoutContent config of
        Inl error \<Rightarrow> (fs, InstallThrew)
      | Inr postCheckout \<Rightarrow>
     (case (if existsSync fs (hooksDir join workspacePath) then Some fs
            else mkdirSync fs (hooksDir join workspacePath)) of
        None \<Rightarrow> (fs, InstallFailed)
      | Some fs' \<Rightarrow>
          write_all fs'
            [(preCommitHook join workspacePath, preCommit),
             (commitMsgHook join workspacePath, commitMsg),
             (postCheckoutHook join workspacePath, postCheckout),
             (prePushHook join workspacePath, prePush)])))))"

text \<open>
  \<open>updateStatusBar\<close> computes \<open>hooksInstalled\<close> from the pre-commit file of the first
  workspace folder and shows one of three states; an exception of \<open>readFileSync\<close> is
  ignored and leaves \<open>hooksInstalled\<close> false.
\<close>

datatype status = NoWorkspace | Active | Ready

definition getWorkspacePath :: "string list \<Rightarrow> string option" where
  "getWorkspacePath workspaceFolders =
     (case workspaceFolders of [] \<Rightarrow> None | folder # _ \<Rightarrow> Some folder)"

definition hooksInstalled :: "(string list \<Rightarrow> string) \<Rightarrow> filesystem \<Rightarrow> string \<Rightarrow> bool" where
  "hooksInstalled join fs workspacePath =
     (if existsSync fs (preCommitHook join workspacePath)
      then (case readFileSync fs (preCommitHook join workspacePath) of
              None \<Rightarrow> False
            | Some content \<Rightarrow> str_includes content extensionSignature)
      else False)"

definition updateStatusBar :: "(string list \<Rightarrow> string) \<Rightarrow> filesystem \<Rightarrow> string list \<Rightarrow> status" where
  "updateStatusBar join fs workspaceFolders =
     (case getWorkspacePath workspaceFolders of
        None \<Rightarrow> NoWorkspace
      | Some workspacePath \<Rightarrow> if hooksInstalled join fs workspacePath then Active else Ready)"

text \<open>\<open>deactivate\<close> runs \<open>removeGitHooks\<close> on every workspace folder, in order.\<close>

definition deactivate :: "(string list \<Rightarrow> string) \<Rightarrow> filesystem \<Rightarrow> string list \<Rightarrow> filesystem" where
  "deactivate join fs workspaceFolders = foldl (removeGitHooks join) fs workspaceFolders"

text \<open>
  The file-system states of the concrete instances below. \<open>fresh_fs\<close> is a clone at
  \<open>/repo\<close> on which nothing is refused. \<open>worktree_fs\<close> is a linked worktree at
  \<open>/repo\<close>: \<open>.git\<close> is a regular file there, and nothing is refused.
  \<open>readonly_fs\<close> is a clone whose hooks directory holds this extension's pre-commit and
  commit-msg hooks and has lost its write permission: files in it can be read but not
  deleted or replaced. \<open>installed_fs\<close> is \<open>fresh_fs\<close> after \<open>installGitHooks\<close> with
  the default configuration, and \<open>edited_fs\<close> is \<open>installed_fs\<close> after the user has
  replaced the pre-push hook by one of their own.
\<close>

definition fresh_fs :: filesystem where
  "fresh_fs =
     \<lparr>files = Map.empty, dirs = {''/repo'', ''/repo/.git''}, refuses = (\<lambda>op path. False)\<rparr>"


definition readonly_fs :: filesystem where
  "readonly_fs =
     \<lparr>files =
        [''/repo/.git/hooks/pre-commit'' \<mapsto>
           ''#!/bin/sh\<newline># VS Code Validate Branch Extension - Pre-commit hook\<newline>'',
         ''/repo/.git/hooks/commit-msg'' \<mapsto>
           ''#!/bin/sh\<newline># VS Code Validate Branch Extension - Commit message hook\<newline>''],
      dirs = {''/repo'', ''/repo/.git'', ''/repo/.git/hooks''},
      refuses = (\<lambda>op path. op \<noteq> Read \<and> prefix ''/repo/.git/hooks/'' path)\<rparr>"

definition installed_fs :: filesystem where
  "installed_fs = fst (installGitHooks posix_join fresh_fs ''/repo'' default_config)"

definition edited_fs :: filesystem where
  "edited_fs =
     installed_fs\<lparr>files := (files installed_fs)
       (''/repo/.git/hooks/pre-push'' \<mapsto> ''#!/bin/sh\<newline>make test\<newline>'')\<rparr>"

section \<open>Every built-in example satisfies its own rule\<close>

lemma jira_branch_examples_match:
  "regex_test jira_branch_regex (js_str ''feature/APC-2876-user-auth'')"
  "regex_test jira_branch_regex (js_str ''bugfix/APC-1234-login-fix'')"
  "regex_test jira_branch_regex (js_str ''hotfix/APC-5678-security-patch'')"
  "regex_test jira_branch_regex (js_str ''release/APC-9999-v2-release'')"
  "regex_test jira_branch_regex (js_str ''chore/APC-1111-update-deps'')"
  by code_simp+

lemma jira_commit_examples_match:
  "regex_test jira_commit_regex (js_str ''[APC-2356] feat(auth): Add Login Functionality'')"
  "regex_test jira_commit_regex (js_str ''[APC-1234] fix(ui): Resolve button alignment issue'')"
  "regex_test jira_commit_regex (js_str ''[APC-5678] docs(readme): Update installation guide'')"
  "regex_test jira_commit_regex (js_str ''[APC-9999] refactor(api): Simplify user service'')"
  by code_simp+

lemma js_get_jira [simp]: "js_get [(''jira'', v)] ''jira'' = Own v"
  by (simp add: js_get_def)

text \<open>
  C5. For every convention of the registry (the keys of \<open>BRANCH_PATTERNS\<close> and of
  \<open>COMMIT_PATTERNS\<close>) \<open>getBranchExamples\<close>, respectively \<open>getCommitExamples\<close>, returns
  a list of examples, and every example of that list validates under that convention: the
  validator returns \<open>true\<close> and shows no error.
\<close>

theorem examples_satisfy_own_rule:
  "(\<forall>c \<in> set (map fst BRANCH_PATTERNS). \<exists>examples. getBranchExamples c = Some examples \<and>
      (\<forall>e \<in> set examples. validateBranchName RegExp_new config (js_str e) c = ([], Inr True))) \<and>
   (\<forall>c \<in> set (map fst COMMIT_PATTERNS). \<exists>examples. getCommitExamples c = Some examples \<and>
      (\<forall>e \<in> set examples. validateCommitMessage RegExp_new config (js_str e) c = ([], Inr True)))"
  by (simp add: BRANCH_PATTERNS_def COMMIT_PATTERNS_def getBranchExamples_def
      getCommitExamples_def or_default_def jira_branch_examples_def jira_commit_examples_def
      validateBranchName_def validateCommitMessage_def
      jira_branch_examples_match jira_commit_examples_match)

theorem examples_satisfy_own_rule_witness:
  "''jira'' \<in> set (map fst BRANCH_PATTERNS) \<and>
   getBranchExamples ''jira'' = Some jira_branch_examples \<and>
   ''bugfix/APC-1234-login-fix'' \<in> set jira_branch_examples \<and>
   validateBranchName sample_RegExp default_config (js_str ''bugfix/APC-1234-login-fix'') ''jira''
     = ([], Inr True) \<and>
   ''jira'' \<in> set (map fst COMMIT_PATTERNS) \<and>
   getCommitExamples ''jira'' = Some jira_commit_examples \<and>
   ''[APC-9999] refactor(api): Simplify user service'' \<in> set jira_commit_examples \<and>
   validateCommitMessage sample_RegExp default_config
     (js_str ''[APC-9999] refactor(api): Simplify user service'') ''jira'' = ([], Inr True)"
proof -
  have b: "''jira'' \<in> set (map fst BRANCH_PATTERNS)"
    by (simp add: BRANCH_PATTERNS_def)
  have c: "''jira'' \<in> set (map fst COMMIT_PATTERNS)"
    by (simp add: COMMIT_PATTERNS_def)
  have gb: "getBranchExamples ''jira'' = Some jira_branch_examples"
    by (simp add: getBranchExamples_def or_default_def)
  have gc: "getCommitExamples ''jira'' = Some jira_commit_examples"
    by (simp add: getCommitExamples_def or_default_def)
  have eb: "''bugfix/APC-1234-login-fix'' \<in> set jira_branch_examples"
    by (simp add: jira_branch_examples_def)
  have ec: "''[APC-9999] refactor(api): Simplify user service'' \<in> set jira_commit_examples"
    by (simp add: jira_commit_examples_def)
  from examples_satisfy_own_rule [of sample_RegExp default_config] b gb eb
  have 1: "validateBranchName sample_RegExp default_config
      (js_str ''bugfix/APC-1234-login-fix'') ''jira'' = ([], Inr True)"
    by fastforce
  from examples_satisfy_own_rule [of sample_RegExp default_config] c gc ec
  have 2: "validateCommitMessage sample_RegExp default_config
      (js_str ''[APC-9999] refactor(api): Simplify user service'') ''jira'' = ([], Inr True)"
    by fastforce
  from b c gb gc eb ec 1 2 show ?thesis by blast
qed

section \<open>Regular expressions: where a match starts and ends\<close>

lemma tails_suffix: "t \<in> set (tails s) \<longleftrightarrow> suffix t s"
  by (induction s) (auto simp: suffix_Cons)

lemma match_one_iff: "t \<in> set (match_one P s) \<longleftrightarrow> (\<exists>x. s = x # t \<and> P x)"
  by (cases s) auto

lemma concat_map_nonempty: "concat (map f xs) \<noteq> [] \<longleftrightarrow> (\<exists>x \<in> set xs. f x \<noteq> [])"
  by (induction xs) auto

lemma match_rep_suffix:
  assumes f: "\<And>s t. t \<in> set (f s) \<Longrightarrow> suffix t s"
  shows "t \<in> set (match_rep f lo hi k s) \<Longrightarrow> suffix t s"
proof (induction k arbitrary: lo hi s)
  case 0
  then show ?case by (auto split: if_splits)
next
  case (Suc k)
  from Suc.prems consider "t = s" | s' where "s' \<in> set (f s)"
    "t \<in> set (match_rep f (lo - 1) (map_option (\<lambda>h. h - 1) hi) k s')"
    by (auto split: if_splits)
  then show ?case
  proof cases
    case 1
    then show ?thesis by simp
  next
    case 2
    from Suc.IH [OF 2(2)] f [OF 2(1)] show ?thesis
      by (rule suffix_order.trans)
  qed
qed

lemma rx_match_suffix: "t \<in> set (rx_match r n s) \<Longrightarrow> suffix t s"
proof (induction r arbitrary: s t)
  case (Seq a b)
  then obtain u where "u \<in> set (rx_match a n s)" "t \<in> set (rx_match b n u)" by auto
  with Seq.IH show ?case by (blast intro: suffix_order.trans)
next
  case (Rep r lo hi)
  then show ?case by (auto intro: match_rep_suffix)
qed (auto simp: match_one_iff suffix_Cons split: if_splits)

lemma match_rep_one:
  "t \<in> set (match_rep (match_one P) lo hi k s) \<Longrightarrow>
   \<exists>u. s = u @ t \<and> (\<forall>x \<in> set u. P x) \<and> (0 < lo \<longrightarrow> u \<noteq> [])"
proof (induction k arbitrary: lo hi s)
  case 0
  then show ?case by (auto split: if_splits)
next
  case (Suc k)
  from Suc.prems consider "lo = 0" "t = s" | x s' where "s = x # s'" "P x"
    "t \<in> set (match_rep (match_one P) (lo - 1) (map_option (\<lambda>h. h - 1) hi) k s')"
    by (auto simp: match_one_iff split: if_splits)
  then show ?case
  proof cases
    case 1
    then show ?thesis by simp
  next
    case 2
    from Suc.IH [OF 2(3)] obtain u where "s' = u @ t" "\<forall>x \<in> set u. P x" by blast
    with 2(1,2) have "s = (x # u) @ t \<and> (\<forall>y \<in> set (x # u). P y) \<and> x # u \<noteq> []" by simp
    then show ?thesis by blast
  qed
qed

lemma ends_in_suffix: "suffix t s \<Longrightarrow> ends_in P t \<Longrightarrow> ends_in P s"
  by (auto simp: ends_in_def suffix_def)

lemma ends_in_Seq:
  assumes "rx_match (Seq a b) n s \<noteq> []" and "\<And>t. rx_match b n t \<noteq> [] \<Longrightarrow> ends_in P t"
  shows "ends_in P s"
proof -
  from assms(1) obtain t where "t \<in> set (rx_match a n s)" "rx_match b n t \<noteq> []"
    by (auto simp: concat_map_nonempty)
  with assms(2) rx_match_suffix show ?thesis by (blast intro: ends_in_suffix)
qed

lemma ends_in_Rep_Eol:
  assumes "rx_match (Seq (Rep r (Suc lo) hi) Eol) n s \<noteq> []" and "rx_match r n = match_one P"
  shows "ends_in P s"
proof -
  from assms obtain t where t: "t \<in> set (match_rep (match_one P) (Suc lo) hi (length s + Suc lo) s)"
    and e: "rx_match Eol n t \<noteq> []"
    by (auto simp: concat_map_nonempty)
  from e have "t = []" by (simp split: if_splits)
  with match_rep_one [OF t] show ?thesis by (auto simp: ends_in_def)
qed

lemma regex_test_ends_in:
  assumes "regex_test r s" and "\<And>n t. rx_match r n t \<noteq> [] \<Longrightarrow> ends_in P t"
  shows "ends_in P s"
proof -
  from assms(1) obtain t where "suffix t s" "rx_match r (length s) t \<noteq> []"
    by (auto simp: regex_test_def list_ex_iff tails_suffix)
  with assms(2) show ?thesis by (blast intro: ends_in_suffix)
qed

lemma regex_test_Bol:
  assumes "regex_test (Seq Bol r) s"
  shows "rx_match r (length s) s \<noteq> []"
proof -
  from assms obtain t where t: "suffix t s" and m: "rx_match (Seq Bol r) (length s) t \<noteq> []"
    by (auto simp: regex_test_def list_ex_iff tails_suffix)
  from m have "length t = length s" by (auto split: if_splits)
  with t have "t = s" by (auto simp: suffix_def)
  with m show ?thesis by simp
qed

lemma seqs_Cons: "rs \<noteq> [] \<Longrightarrow> seqs (r # rs) = Seq r (seqs rs)"
  by (cases rs) auto

lemma ends_in_seqs:
  assumes "rx_match r n = match_one P"
  shows "rx_match (seqs (rs @ [Rep r (Suc lo) hi, Eol])) n s \<noteq> [] \<Longrightarrow> ends_in P s"
proof (induction rs arbitrary: s)
  case Nil
  then have "rx_match (Seq (Rep r (Suc lo) hi) Eol) n s \<noteq> []"
    unfolding append_Nil seqs.simps .
  then show ?case using assms by (rule ends_in_Rep_Eol)
next
  case (Cons a rs)
  then have "rx_match (Seq a (seqs (rs @ [Rep r (Suc lo) hi, Eol]))) n s \<noteq> []"
    by (simp add: seqs_Cons)
  then show ?case using Cons.IH by (rule ends_in_Seq)
qed

lemma jira_branch_ends:
  assumes "regex_test jira_branch_regex s"
  shows "ends_in (in_class [(CHR ''a'', CHR ''z''), (CHR ''0'', CHR ''9''), (CHR ''-'', CHR ''-'')]) s"
proof -
  have shape: "jira_branch_regex = seqs
     ([Bol,
       alts [lit ''feature'', lit ''bugfix'', lit ''hotfix'', lit ''release'', lit ''chore''],
       Chr CHR ''/'', rx_plus upper_cls, Chr CHR ''-'', rx_plus digit_cls, Chr CHR ''-'']
      @ [Rep slug_cls (Suc 0) None, Eol])"
    by (simp add: jira_branch_regex_def rx_plus_def)
  have one: "rx_match slug_cls n = match_one (in_class [(CHR ''a'', CHR ''z''), (CHR ''0'', CHR ''9''), (CHR ''-'', CHR ''-'')])" for n
    by (simp add: slug_cls_def fun_eq_iff)
  from assms show ?thesis
    unfolding shape by (rule regex_test_ends_in) (rule ends_in_seqs [OF one])
qed

lemma jira_commit_ends:
  assumes "regex_test jira_commit_regex s"
  shows "ends_in (\<lambda>x. \<not> line_terminator x) s"
proof -
  have shape: "jira_commit_regex = seqs
     ([Bol, Chr CHR ''['', rx_plus upper_cls, Chr CHR ''-'', rx_plus digit_cls, Chr CHR '']'',
       Chr CHR '' '',
       alts [lit ''feat'', lit ''fix'', lit ''docs'', lit ''style'', lit ''refactor'',
             lit ''test'', lit ''chore''],
       Chr CHR ''('', rx_plus slug_cls, Chr CHR '')'', Chr CHR '':'', Chr CHR '' '']
      @ [Rep Dot (Suc 0) (Some 80), Eol])"
    by (simp add: jira_commit_regex_def)
  have one: "rx_match Dot n = match_one (\<lambda>x. \<not> line_terminator x)" for n
    by (simp add: fun_eq_iff)
  from assms show ?thesis
    unfolding shape by (rule regex_test_ends_in) (rule ends_in_seqs [OF one])
qed

lemma jira_branch_starts:
  assumes "regex_test jira_branch_regex (c # cs)"
  shows "c \<in> set (js_str ''fbhrc'')"
proof -
  from assms have "rx_match (seqs (tl
     [Bol,
      alts [lit ''feature'', lit ''bugfix'', lit ''hotfix'', lit ''release'', lit ''chore''],
      Chr CHR ''/'',
      rx_plus upper_cls,
      Chr CHR ''-'',
      rx_plus digit_cls,
      Chr CHR ''-'',
      rx_plus slug_cls,
      Eol])) (length (c # cs)) (c # cs) \<noteq> []"
    unfolding jira_branch_regex_def by (intro regex_test_Bol) simp
  then have "rx_match (alts [lit ''feature'', lit ''bugfix'', lit ''hotfix'', lit ''release'', lit ''chore'']) (length (c # cs)) (c # cs) \<noteq> []"
    by (auto simp: concat_map_nonempty simp del: rx_match.simps(9))
  then show ?thesis
    by (auto simp: lit_def is_char_def js_str_def split: if_splits)
qed

lemma jira_commit_starts:
  assumes "regex_test jira_commit_regex (c # cs)"
  shows "c = of_char CHR ''[''"
proof -
  from assms have "rx_match (seqs (tl
     [Bol,
      Chr CHR ''['',
      rx_plus upper_cls,
      Chr CHR ''-'',
      rx_plus digit_cls,
      Chr CHR '']'',
      Chr CHR '' '',
      alts [lit ''feat'', lit ''fix'', lit ''docs'', lit ''style'', lit ''refactor'',
            lit ''test'', lit ''chore''],
      Chr CHR ''('',
      rx_plus slug_cls,
      Chr CHR '')'',
      Chr CHR '':'',
      Chr CHR '' '',
      Rep Dot 1 (Some 80),
      Eol])) (length (c # cs)) (c # cs) \<noteq> []"
    unfolding jira_commit_regex_def by (intro regex_test_Bol) simp
  then show ?thesis
    by (auto simp: concat_map_nonempty is_char_def simp del: rx_match.simps(9) split: if_splits)
qed

section \<open>Validation is a regular-expression test on the subject as given\<close>

lemma space_not_slug:
  "is_space u \<Longrightarrow> \<not> in_class [(CHR ''a'', CHR ''z''), (CHR ''0'', CHR ''9''), (CHR ''-'', CHR ''-'')] u"
  by (auto simp: is_space_def in_class_def)

lemma space_not_branch_start: "is_space u \<Longrightarrow> u \<notin> set (js_str ''fbhrc'')"
  by (auto simp: is_space_def js_str_def)

lemma space_not_bracket: "is_space u \<Longrightarrow> u \<noteq> of_char CHR ''[''"
  by (auto simp: is_space_def)

lemma jira_branch_rejects_space:
  assumes "subject \<noteq> []" and "is_space (hd subject) \<or> is_space (last subject)"
  shows "\<not> regex_test jira_branch_regex subject"
proof
  assume t: "regex_test jira_branch_regex subject"
  from assms(1) obtain c cs where s: "subject = c # cs" by (cases subject) auto
  from jira_branch_starts [OF t [unfolded s]] space_not_branch_start s
  have "\<not> is_space (hd subject)" by auto
  moreover from jira_branch_ends [OF t] space_not_slug
  have "\<not> is_space (last subject)" by (auto simp: ends_in_def)
  ultimately show False using assms(2) by blast
qed

lemma jira_commit_rejects_space:
  assumes "subject \<noteq> []" and "is_space (hd subject) \<or> line_terminator (last subject)"
  shows "\<not> regex_test jira_commit_regex subject"
proof
  assume t: "regex_test jira_commit_regex subject"
  from assms(1) obtain c cs where s: "subject = c # cs" by (cases subject) auto
  from jira_commit_starts [OF t [unfolded s]] space_not_bracket s
  have "\<not> is_space (hd subject)" by auto
  moreover from jira_commit_ends [OF t]
  have "\<not> line_terminator (last subject)" by (auto simp: ends_in_def)
  ultimately show False using assms(2) by blast
qed

text \<open>
  C2, as the code has it. Validation is \<open>RegExp.test\<close> of the resolved rule on the subject
  as it is given: nothing is trimmed, and \<open>test\<close> searches for a match rather than
  matching the whole subject. Under the built-in rules a branch name that starts or ends
  with white space never validates, and a commit message that starts with white space or
  ends with a line terminator (line feed, carriage return, U+2028, U+2029) never validates.
  Other trailing white space of a commit message is matched by \<^verbatim>\<open>.{1,80}\<close>, and
  under a custom rule the pattern alone decides.
\<close>

theorem validation_is_untrimmed_test:
  "validateBranchName RegExp_new config subject ''jira''
     = ([], Inr (regex_test jira_branch_regex subject)) \<and>
   validateCommitMessage RegExp_new config subject ''jira''
     = ([], Inr (regex_test jira_commit_regex subject)) \<and>
   (customBranchPattern config \<noteq> [] \<and> RegExp_new (customBranchPattern config) = Some test \<longrightarrow>
      validateBranchName RegExp_new config subject ''custom'' = ([], Inr (test subject))) \<and>
   (customCommitPattern config \<noteq> [] \<and> RegExp_new (customCommitPattern config) = Some test \<longrightarrow>
      validateCommitMessage RegExp_new config subject ''custom'' = ([], Inr (test subject))) \<and>
   (subject \<noteq> [] \<and> (is_space (hd subject) \<or> is_space (last subject)) \<longrightarrow>
      validateBranchName RegExp_new config subject ''jira'' = ([], Inr False)) \<and>
   (subject \<noteq> [] \<and> (is_space (hd subject) \<or> line_terminator (last subject)) \<longrightarrow>
      validateCommitMessage RegExp_new config subject ''jira'' = ([], Inr False))"
  using jira_branch_rejects_space [of subject] jira_commit_rejects_space [of subject]
  by (simp add: validateBranchName_def validateCommitMessage_def BRANCH_PATTERNS_def
      COMMIT_PATTERNS_def)

text \<open>
  C2 as stated fails: a commit message with a trailing space, or a trailing no-break space
  (U+00A0), validates under the built-in rule, and a custom rule without anchors (here
  \<open>/a/\<close>) accepts a subject with white space at both ends.
\<close>

theorem trailing_space_validates:
  "is_space (last (js_str ''[APC-2356] feat(auth): Add Login Functionality '')) \<and>
   validateCommitMessage sample_RegExp default_config
     (js_str ''[APC-2356] feat(auth): Add Login Functionality '') ''jira'' = ([], Inr True) \<and>
   is_space (last (js_str ''[APC-2356] feat(auth): Add Login Functionality'' @ [0xA0])) \<and>
   validateCommitMessage sample_RegExp default_config
     (js_str ''[APC-2356] feat(auth): Add Login Functionality'' @ [0xA0]) ''jira''
       = ([], Inr True) \<and>
   is_space (hd (js_str '' a '')) \<and> is_space (last (js_str '' a '')) \<and>
   validateBranchName sample_RegExp
     \<lparr>branchPattern = ''custom'', commitPattern = ''jira'',
      enableBranchValidation = True, enableCommitValidation = True,
      customBranchPattern = ''a'', customCommitPattern = []\<rparr>
     (js_str '' a '') ''custom'' = ([], Inr True)"
  by code_simp

theorem validation_is_untrimmed_test_witness:
  "validateBranchName sample_RegExp
     \<lparr>branchPattern = ''custom'', commitPattern = ''custom'',
      enableBranchValidation = True, enableCommitValidation = True,
      customBranchPattern = ''a'', customCommitPattern = ''a''\<rparr>
     (js_str ''feature/APC-2876-user-auth '') ''custom'' = ([], Inr True) \<and>
   validateCommitMessage sample_RegExp
     \<lparr>branchPattern = ''custom'', commitPattern = ''custom'',
      enableBranchValidation = True, enableCommitValidation = True,
      customBranchPattern = ''a'', customCommitPattern = ''a''\<rparr>
     (js_str ''fix login'') ''custom'' = ([], Inr False) \<and>
   is_space (last (js_str ''feature/APC-2876-user-auth '')) \<and>
   validateBranchName sample_RegExp
     \<lparr>branchPattern = ''custom'', commitPattern = ''custom'',
      enableBranchValidation = True, enableCommitValidation = True,
      customBranchPattern = ''a'', customCommitPattern = ''a''\<rparr>
     (js_str ''feature/APC-2876-user-auth '') ''jira'' = ([], Inr False) \<and>
   line_terminator (last (js_str ''[APC-2356] feat(auth): Add Login Functionality'' @ [0x2028])) \<and>
   validateCommitMessage sample_RegExp
     \<lparr>branchPattern = ''custom'', commitPattern = ''custom'',
      enableBranchValidation = True, enableCommitValidation = True,
      customBranchPattern = ''a'', customCommitPattern = ''a''\<rparr>
     (js_str ''[APC-2356] feat(auth): Add Login Functionality'' @ [0x2028]) ''jira''
       = ([], Inr False)"
proof -
  let ?c = "\<lparr>branchPattern = ''custom'', commitPattern = ''custom'',
      enableBranchValidation = True, enableCommitValidation = True,
      customBranchPattern = ''a'', customCommitPattern = ''a''\<rparr>"
  let ?b = "js_str ''feature/APC-2876-user-auth ''"
  let ?m = "js_str ''[APC-2356] feat(auth): Add Login Functionality'' @ [0x2028]"
  have r: "sample_RegExp ''a'' = Some (regex_test (Chr CHR ''a''))"
    by (simp add: sample_RegExp_def)
  have t: "regex_test (Chr CHR ''a'') ?b" "\<not> regex_test (Chr CHR ''a'') (js_str ''fix login'')"
    by code_simp+
  have sp: "is_space (last ?b)" "line_terminator (last ?m)"
    by (simp_all add: is_space_def line_terminator_def js_str_def)
  have ne: "?b \<noteq> []" "?m \<noteq> []"
    by (simp_all add: js_str_def)
  note b = validation_is_untrimmed_test [of sample_RegExp ?c ?b "regex_test (Chr CHR ''a'')"]
  from b r have "validateBranchName sample_RegExp ?c ?b ''custom''
      = ([], Inr (regex_test (Chr CHR ''a'') ?b))"
    by simp
  with t have 1: "validateBranchName sample_RegExp ?c ?b ''custom'' = ([], Inr True)"
    by simp
  from b sp ne
  have 2: "validateBranchName sample_RegExp ?c ?b ''jira'' = ([], Inr False)"
    by blast
  from validation_is_untrimmed_test
    [of sample_RegExp ?c "js_str ''fix login''" "regex_test (Chr CHR ''a'')"] r
  have "validateCommitMessage sample_RegExp ?c (js_str ''fix login'') ''custom''
      = ([], Inr (regex_test (Chr CHR ''a'') (js_str ''fix login'')))"
    by simp
  with t have 3: "validateCommitMessage sample_RegExp ?c (js_str ''fix login'') ''custom''
      = ([], Inr False)"
    by simp
  from validation_is_untrimmed_test [of sample_RegExp ?c ?m "regex_test (Chr CHR ''a'')"] sp ne
  have 4: "validateCommitMessage sample_RegExp ?c ?m ''jira'' = ([], Inr False)"
    by blast
  from 1 2 3 4 sp show ?thesis by blast
qed

section \<open>Unknown convention identifiers\<close>

lemma js_get_unknown:
  "key \<noteq> ''jira'' \<Longrightarrow> key \<notin> set object_prototype_names \<Longrightarrow> js_get [(''jira'', v)] key = Undefined"
  by (simp add: js_get_def)

lemma not_inherited:
  "''gitflow'' \<notin> set object_prototype_names" "''conventional'' \<notin> set object_prototype_names"
  "''custom'' \<notin> set object_prototype_names" "''jira'' \<notin> set object_prototype_names"
  by (simp_all add: object_prototype_names_def)

text \<open>
  C3 at a concrete input. Under the unknown identifiers \<open>gitflow\<close> and \<open>conventional\<close>
  the validators return \<open>false\<close> for subjects that the default convention \<open>jira\<close>
  accepts: \<open>BRANCH_PATTERNS[pattern]\<close> is undefined and the function returns early. The
  hook generators and the example getters do fall back to \<open>jira\<close> for the same
  identifiers.
\<close>

theorem unknown_convention_rejects_in_process:
  "validateBranchName RegExp_new config (js_str ''feature/APC-2876-user-auth'') ''gitflow''
     = ([], Inr False) \<and>
   validateBranchName RegExp_new config (js_str ''feature/APC-2876-user-auth'') ''jira''
     = ([], Inr True) \<and>
   validateCommitMessage RegExp_new config
     (js_str ''[APC-2356] feat(auth): Add Login Functionality'') ''conventional''
     = ([], Inr False) \<and>
   validateCommitMessage RegExp_new config
     (js_str ''[APC-2356] feat(auth): Add Login Functionality'') ''jira'' = ([], Inr True) \<and>
   branch_hook_pattern (config\<lparr>branchPattern := ''gitflow''\<rparr>) = Some jira_branch_text \<and>
   commit_hook_pattern (config\<lparr>commitPattern := ''conventional''\<rparr>) = Some jira_commit_text \<and>
   getBranchExamples ''gitflow'' = getBranchExamples ''jira'' \<and>
   getCommitExamples ''conventional'' = getCommitExamples ''jira''"
  by (simp add: validateBranchName_def validateCommitMessage_def BRANCH_PATTERNS_def
      COMMIT_PATTERNS_def branch_hook_pattern_def commit_hook_pattern_def
      getBranchExamples_def getCommitExamples_def or_default_def js_get_unknown not_inherited
      jira_branch_examples_match jira_commit_examples_match)

section \<open>Custom patterns that are empty or do not compile\<close>

text \<open>
  C4, as the code has it by design. Under the convention \<open>custom\<close>, a non-empty pattern
  text that does not compile makes the validator show the error \<open>Invalid custom branch
  pattern in settings\<close> (respectively \<open>commit\<close>) and return \<open>false\<close>; the message is
  what tells it from a mismatch, for which no error is shown (whether the rule is a custom
  one that compiles or the built-in one). An empty pattern text is not reported: no error
  is shown. The hook generators never compile the text: a non-empty one is the pattern of
  the script as it is.
\<close>

theorem custom_pattern_errors:
  "(customBranchPattern config \<noteq> [] \<and> RegExp_new (customBranchPattern config) = None \<longrightarrow>
      validateBranchName RegExp_new config subject ''custom''
        = ([''Invalid custom branch pattern in settings''], Inr False)) \<and>
   (customCommitPattern config \<noteq> [] \<and> RegExp_new (customCommitPattern config) = None \<longrightarrow>
      validateCommitMessage RegExp_new config subject ''custom''
        = ([''Invalid custom commit pattern in settings''], Inr False)) \<and>
   (customBranchPattern config \<noteq> [] \<and> RegExp_new (customBranchPattern config) = Some test \<longrightarrow>
      fst (validateBranchName RegExp_new config subject ''custom'') = []) \<and>
   (customCommitPattern config \<noteq> [] \<and> RegExp_new (customCommitPattern config) = Some test \<longrightarrow>
      fst (validateCommitMessage RegExp_new config subject ''custom'') = []) \<and>
   fst (validateBranchName RegExp_new config subject ''jira'') = [] \<and>
   fst (validateCommitMessage RegExp_new config subject ''jira'') = [] \<and>
   (customBranchPattern config = [] \<longrightarrow>
      fst (validateBranchName RegExp_new config subject ''custom'') = []) \<and>
   (customCommitPattern config = [] \<longrightarrow>
      fst (validateCommitMessage RegExp_new config subject ''custom'') = []) \<and>
   (branchPattern config = ''custom'' \<and> customBranchPattern config \<noteq> [] \<longrightarrow>
      branch_hook_pattern config = Some (customBranchPattern config)) \<and>
   (commitPattern config = ''custom'' \<and> customCommitPattern config \<noteq> [] \<longrightarrow>
      commit_hook_pattern config = Some (customCommitPattern config))"
  by (simp add: validateBranchName_def validateCommitMessage_def BRANCH_PATTERNS_def
      COMMIT_PATTERNS_def branch_hook_pattern_def commit_hook_pattern_def
      js_get_unknown not_inherited)

text \<open>
  C4 as stated fails: with \<open>custom\<close> and an empty pattern text no error is shown, and the
  validator's answer is the one it gives for an ordinary mismatch.
\<close>

theorem empty_custom_pattern_is_silent:
  "validateBranchName sample_RegExp
     \<lparr>branchPattern = ''custom'', commitPattern = ''custom'',
      enableBranchValidation = True, enableCommitValidation = True,
      customBranchPattern = [], customCommitPattern = []\<rparr>
     (js_str ''feature/APC-2876-user-auth'') ''custom'' = ([], Inr False) \<and>
   validateBranchName sample_RegExp default_config (js_str ''my-feature'') ''jira''
     = ([], Inr False) \<and>
   validateCommitMessage sample_RegExp
     \<lparr>branchPattern = ''custom'', commitPattern = ''custom'',
      enableBranchValidation = True, enableCommitValidation = True,
      customBranchPattern = [], customCommitPattern = []\<rparr>
     (js_str ''[APC-2356] feat(auth): Add Login Functionality'') ''custom'' = ([], Inr False) \<and>
   validateCommitMessage sample_RegExp default_config (js_str ''fix login'') ''jira''
     = ([], Inr False)"
  by code_simp

theorem custom_pattern_errors_witness:
  "sample_RegExp ''('' = None \<and>
   validateBranchName sample_RegExp
     \<lparr>branchPattern = ''custom'', commitPattern = ''custom'',
      enableBranchValidation = True, enableCommitValidation = True,
      customBranchPattern = ''('', customCommitPattern = []\<rparr>
     (js_str ''feature/APC-2876-user-auth'') ''custom''
       = ([''Invalid custom branch pattern in settings''], Inr False) \<and>
   fst (validateCommitMessage sample_RegExp
     \<lparr>branchPattern = ''custom'', commitPattern = ''custom'',
      enableBranchValidation = True, enableCommitValidation = True,
      customBranchPattern = ''('', customCommitPattern = []\<rparr>
     (js_str ''fix login'') ''custom'') = [] \<and>
   branch_hook_pattern
     \<lparr>branchPattern = ''custom'', commitPattern = ''custom'',
      enableBranchValidation = True, enableCommitValidation = True,
      customBranchPattern = ''('', customCommitPattern = []\<rparr> = Some ''(''"
proof -
  let ?c = "\<lparr>branchPattern = ''custom'', commitPattern = ''custom'',
      enableBranchValidation = True, enableCommitValidation = True,
      customBranchPattern = ''('', customCommitPattern = []\<rparr>"
  have r: "sample_RegExp ''('' = None" by (simp add: sample_RegExp_def)
  from custom_pattern_errors [of ?c sample_RegExp "js_str ''feature/APC-2876-user-auth''"] r
  have 1: "validateBranchName sample_RegExp ?c (js_str ''feature/APC-2876-user-auth'') ''custom''
       = ([''Invalid custom branch pattern in settings''], Inr False)"
    "branch_hook_pattern ?c = Some ''(''"
    by simp_all
  from custom_pattern_errors [of ?c sample_RegExp "js_str ''fix login''"]
  have 2: "fst (validateCommitMessage sample_RegExp ?c (js_str ''fix login'') ''custom'') = []"
    by simp
  from r 1 2 show ?thesis by simp
qed

section \<open>Patterns, examples and identifiers as shell literals\<close>

lemma hook_pattern_None:
  "branch_hook_pattern config = None \<longleftrightarrow> branch_hook_exampleList config = None"
  "commit_hook_pattern config = None \<longleftrightarrow> commit_hook_exampleList config = None"
  by (auto simp: branch_hook_pattern_def branch_hook_exampleList_def commit_hook_pattern_def
      commit_hook_exampleList_def or_default_def js_get_def object_prototype_names_def
      split: if_splits)

lemma emit_Some [simp]: "emit pre (Some (v, rest)) = Some (pre @ v, rest)"
  by (simp add: emit_def)



























section \<open>Installing, detecting and removing the hook files\<close>

lemma str_includes_iff: "str_includes s sub \<longleftrightarrow> (\<exists>a b. s = a @ sub @ b)"
proof (induction s)
  case Nil
  then show ?case by auto
next
  case (Cons c cs)
  show ?case
  proof
    assume "str_includes (c # cs) sub"
    then consider "prefix sub (c # cs)" | "str_includes cs sub" by auto
    then show "\<exists>a b. c # cs = a @ sub @ b"
    proof cases
      case 1
      then obtain b where "c # cs = sub @ b" by (auto simp: prefix_def)
      then have "c # cs = [] @ sub @ b" by simp
      then show ?thesis by blast
    next
      case 2
      with Cons.IH obtain a b where "cs = a @ sub @ b" by blast
      then have "c # cs = (c # a) @ sub @ b" by simp
      then show ?thesis by blast
    qed
  next
    assume "\<exists>a b. c # cs = a @ sub @ b"
    then obtain a b where ab: "c # cs = a @ sub @ b" by blast
    show "str_includes (c # cs) sub"
    proof (cases a)
      case Nil
      with ab have "prefix sub (c # cs)" by (simp add: prefix_def)
      then show ?thesis by simp
    next
      case (Cons x a')
      with ab have "cs = a' @ sub @ b" by simp
      with Cons.IH have "str_includes cs sub" by blast
      then show ?thesis by simp
    qed
  qed
qed

lemma preCommitContent_signed:
  assumes "preCommitContent config = Inr content"
  shows "str_includes content extensionSignature"
proof -
  from assms have "\<exists>b. content = ''#!/bin/sh\<newline>'' @ extensionSignature @ b"
    by (auto simp: preCommitContent_def extensionSignature_def split: sum.splits)
  then show ?thesis unfolding str_includes_iff by blast
qed

lemma commitMsgContent_signed:
  assumes "commitMsgContent config = Inr content"
  shows "str_includes content extensionSignature"
proof -
  from assms have "\<exists>b. content = ''#!/bin/sh\<newline>'' @ extensionSignature @ b"
    by (auto simp: commitMsgContent_def extensionSignature_def split: sum.splits)
  then show ?thesis unfolding str_includes_iff by blast
qed

lemma postCheckoutContent_signed:
  assumes "postCheckoutContent config = Inr content"
  shows "str_includes content extensionSignature"
proof -
  from assms have "\<exists>b. content = ''#!/bin/sh\<newline>'' @ extensionSignature @ b"
    by (auto simp: postCheckoutContent_def extensionSignature_def split: sum.splits)
  then show ?thesis unfolding str_includes_iff by blast
qed

lemma prePushContent_signed:
  assumes "prePushContent config = Inr content"
  shows "str_includes content extensionSignature"
proof -
  from assms have "\<exists>b. content = ''#!/bin/sh\<newline>'' @ extensionSignature @ b"
    by (auto simp: prePushContent_def extensionSignature_def split: sum.splits)
  then show ?thesis unfolding str_includes_iff by blast
qed

lemma hooksInstalled_iff:
  "hooksInstalled join fs workspacePath \<longleftrightarrow>
   (\<exists>content. files fs (preCommitHook join workspacePath) = Some content \<and>
      \<not> refuses fs Read (preCommitHook join workspacePath) \<and>
      str_includes content extensionSignature)"
  by (auto simp: hooksInstalled_def existsSync_def readFileSync_def split: option.splits)

lemma removable_iff:
  "removable fs path \<longleftrightarrow>
   (\<exists>content. files fs path = Some content \<and> str_includes content extensionSignature \<and>
      \<not> refuses fs Read path \<and> \<not> refuses fs Unlink path)"
  by (auto simp: removable_def split: option.splits)

lemma remove_hook_eq:
  "remove_hook fs q = (if removable fs q then fs\<lparr>files := (files fs)(q := None)\<rparr> else fs)"
  by (auto simp: remove_hook_def removable_def existsSync_def readFileSync_def unlinkSync_def
      split: option.splits)

lemma remove_hook_files:
  "files (remove_hook fs q) p = (if p = q \<and> removable fs q then None else files fs p)"
  by (simp add: remove_hook_eq)

lemma remove_hook_frame:
  "refuses (remove_hook fs q) = refuses fs" "dirs (remove_hook fs q) = dirs fs"
  by (simp_all add: remove_hook_eq)

lemma removable_remove_hook: "removable (remove_hook fs q) p \<longleftrightarrow> removable fs p \<and> p \<noteq> q"
  by (auto simp: removable_def remove_hook_files remove_hook_frame split: option.splits)

lemma foldl_remove_hook_frame:
  "refuses (foldl remove_hook fs ps) = refuses fs \<and> dirs (foldl remove_hook fs ps) = dirs fs"
proof (induction ps arbitrary: fs)
  case Nil
  then show ?case by simp
next
  case (Cons q ps)
  have "foldl remove_hook fs (q # ps) = foldl remove_hook (remove_hook fs q) ps" by simp
  with Cons.IH [of "remove_hook fs q"] show ?case
    by (simp only: remove_hook_frame)
qed

lemma foldl_remove_hook_files:
  "files (foldl remove_hook fs ps) p =
     (if p \<in> set ps \<and> removable fs p then None else files fs p)"
proof (induction ps arbitrary: fs)
  case Nil
  then show ?case by simp
next
  case (Cons q ps)
  have "files (foldl remove_hook fs (q # ps)) p = files (foldl remove_hook (remove_hook fs q) ps) p"
    by simp
  also have "\<dots> = (if p \<in> set ps \<and> removable (remove_hook fs q) p then None
      else files (remove_hook fs q) p)"
    by (rule Cons.IH)
  also have "\<dots> = (if p \<in> set (q # ps) \<and> removable fs p then None else files fs p)"
    by (auto simp: removable_remove_hook remove_hook_files)
  finally show ?case .
qed

lemma removeGitHooks_files:
  "files (removeGitHooks join fs workspacePath) p =
     (if p \<in> {preCommitHook join workspacePath, commitMsgHook join workspacePath,
               postCheckoutHook join workspacePath, prePushHook join workspacePath} \<and>
         removable fs p
      then None else files fs p)"
  unfolding removeGitHooks_def foldl_remove_hook_files by auto

lemma removeGitHooks_frame:
  "refuses (removeGitHooks join fs workspacePath) = refuses fs"
  "dirs (removeGitHooks join fs workspacePath) = dirs fs"
  unfolding removeGitHooks_def using foldl_remove_hook_frame by blast+

lemma removable_removeGitHooks:
  "removable (removeGitHooks join fs workspacePath) p \<longleftrightarrow>
   removable fs p \<and>
   p \<notin> {preCommitHook join workspacePath, commitMsgHook join workspacePath,
         postCheckoutHook join workspacePath, prePushHook join workspacePath}"
  by (auto simp: removable_def removeGitHooks_files removeGitHooks_frame split: option.splits)

lemma hook_names:
  "(\<exists>name \<in> {''pre-commit'', ''commit-msg'', ''pre-push'', ''post-checkout''}.
      p = join [hooksDir join workspacePath, name]) \<longleftrightarrow>
   p \<in> {preCommitHook join workspacePath, commitMsgHook join workspacePath,
        postCheckoutHook join workspacePath, prePushHook join workspacePath}"
  by (auto simp: preCommitHook_def commitMsgHook_def postCheckoutHook_def prePushHook_def)

lemma deactivate_frame:
  "refuses (deactivate join fs folders) = refuses fs \<and> dirs (deactivate join fs folders) = dirs fs"
proof (induction folders arbitrary: fs)
  case Nil
  then show ?case by (simp add: deactivate_def)
next
  case (Cons folder folders)
  have "deactivate join fs (folder # folders) = deactivate join (removeGitHooks join fs folder) folders"
    by (simp add: deactivate_def)
  with Cons.IH [of "removeGitHooks join fs folder"] show ?case
    by (simp only: removeGitHooks_frame)
qed

lemma deactivate_files:
  "files (deactivate join fs folders) p =
     (if (\<exists>folder \<in> set folders.
            p \<in> {preCommitHook join folder, commitMsgHook join folder,
                  postCheckoutHook join folder, prePushHook join folder}) \<and>
         removable fs p
      then None else files fs p)"
proof (induction folders arbitrary: fs)
  case Nil
  then show ?case by (simp add: deactivate_def)
next
  case (Cons folder folders)
  let ?four = "\<lambda>folder. {preCommitHook join folder, commitMsgHook join folder,
                  postCheckoutHook join folder, prePushHook join folder}"
  have "files (deactivate join fs (folder # folders)) p
      = files (deactivate join (removeGitHooks join fs folder) folders) p"
    by (simp add: deactivate_def)
  also have "\<dots> = (if (\<exists>f \<in> set folders. p \<in> ?four f) \<and>
        removable (removeGitHooks join fs folder) p
      then None else files (removeGitHooks join fs folder) p)"
    by (rule Cons.IH)
  also have "\<dots> = (if (\<exists>f \<in> set (folder # folders). p \<in> ?four f) \<and> removable fs p
      then None else files fs p)"
    unfolding removable_removeGitHooks removeGitHooks_files by auto
  finally show ?case .
qed


lemma writeFileSync_Some:
  assumes "writeFileSync fs p c = Some fs1"
  shows "files fs1 = (files fs)(p \<mapsto> c)" "refuses fs1 = refuses fs" "dirs fs1 = dirs fs"
proof -
  from assms have "fs1 = fs\<lparr>files := (files fs)(p \<mapsto> c)\<rparr>"
    by (simp add: writeFileSync_def split: if_splits)
  then show "files fs1 = (files fs)(p \<mapsto> c)" "refuses fs1 = refuses fs" "dirs fs1 = dirs fs"
    by simp_all
qed

lemma write_all_frame:
  "write_all fs ps = (fs', out) \<Longrightarrow> refuses fs' = refuses fs \<and> dirs fs' = dirs fs"
proof (induction ps arbitrary: fs)
  case Nil
  then show ?case by simp
next
  case (Cons x ps)
  obtain p c where x: "x = (p, c)" by (cases x)
  show ?case
  proof (cases "writeFileSync fs p c")
    case None
    with Cons.prems x show ?thesis by simp
  next
    case (Some fs1)
    with Cons.prems x have "write_all fs1 ps = (fs', out)" by simp
    from Cons.IH [OF this] have "refuses fs' = refuses fs1 \<and> dirs fs' = dirs fs1" .
    with writeFileSync_Some(2,3) [OF Some] show ?thesis by simp
  qed
qed

lemma write_all_Installed:
  "write_all fs ps = (fs', Installed) \<Longrightarrow> files fs' = files fs ++ map_of (rev ps)"
proof (induction ps arbitrary: fs)
  case Nil
  then show ?case by simp
next
  case (Cons x ps)
  obtain p c where x: "x = (p, c)" by (cases x)
  show ?case
  proof (cases "writeFileSync fs p c")
    case None
    with Cons.prems x show ?thesis by simp
  next
    case (Some fs1)
    with Cons.prems x have "write_all fs1 ps = (fs', Installed)" by simp
    from Cons.IH [OF this] have "files fs' = files fs1 ++ map_of (rev ps)" .
    with writeFileSync_Some(1) [OF Some] have "files fs' = (files fs)(p \<mapsto> c) ++ map_of (rev ps)"
      by simp
    then show ?thesis using x by simp
  qed
qed

lemma written_last:
  assumes "p \<in> fst ` set ps"
  shows "\<exists>c. (m ++ map_of (rev ps)) p = Some c \<and> (p, c) \<in> set ps"
proof -
  from assms have "p \<in> fst ` set (rev ps)" by simp
  then obtain c where c: "map_of (rev ps) p = Some c"
    by (metis map_of_eq_None_iff not_Some_eq)
  then have "(p, c) \<in> set (rev ps)" by (rule map_of_SomeD)
  with c show ?thesis by (auto simp: map_add_Some_iff)
qed

text \<open>The directory step of \<open>installGitHooks\<close>.\<close>

lemma ensure_dir:
  assumes "(if existsSync fs d then Some fs else mkdirSync fs d) = Some fs1"
  shows "files fs1 = files fs" "refuses fs1 = refuses fs"
  using assms by (auto simp: mkdirSync_def split: if_splits)

lemma installGitHooks_cases:
  obtains (threw) "installGitHooks join fs workspacePath config = (fs, InstallThrew)"
  | (rendered) preCommit commitMsg prePush postCheckout where
      "preCommitContent config = Inr preCommit" "commitMsgContent config = Inr commitMsg"
      "prePushContent config = Inr prePush" "postCheckoutContent config = Inr postCheckout"
      "installGitHooks join fs workspacePath config =
         (case (if existsSync fs (hooksDir join workspacePath) then Some fs
                else mkdirSync fs (hooksDir join workspacePath)) of
            None \<Rightarrow> (fs, InstallFailed)
          | Some fs' \<Rightarrow>
              write_all fs'
                [(preCommitHook join workspacePath, preCommit),
                 (commitMsgHook join workspacePath, commitMsg),
                 (postCheckoutHook join workspacePath, postCheckout),
                 (prePushHook join workspacePath, prePush)])"
proof (cases "preCommitContent config")
  case Inl
  then have "installGitHooks join fs workspacePath config = (fs, InstallThrew)"
    by (simp add: installGitHooks_def)
  then show ?thesis by (rule threw)
next
  case a: (Inr preCommit)
  show ?thesis
  proof (cases "commitMsgContent config")
    case Inl
    with a have "installGitHooks join fs workspacePath config = (fs, InstallThrew)"
      by (simp add: installGitHooks_def)
    then show ?thesis by (rule threw)
  next
    case b: (Inr commitMsg)
    show ?thesis
    proof (cases "prePushContent config")
      case Inl
      with a b have "installGitHooks join fs workspacePath config = (fs, InstallThrew)"
        by (simp add: installGitHooks_def)
      then show ?thesis by (rule threw)
    next
      case c: (Inr prePush)
      show ?thesis
      proof (cases "postCheckoutContent config")
        case Inl
        with a b c have "installGitHooks join fs workspacePath config = (fs, InstallThrew)"
          by (simp add: installGitHooks_def)
        then show ?thesis by (rule threw)
      next
        case d: (Inr postCheckout)
        show ?thesis
          by (rule rendered [OF a b c d]) (simp add: installGitHooks_def a b c d)
      qed
    qed
  qed
qed

lemma installed_files:
  assumes "installGitHooks join fs workspacePath config = (fs', Installed)"
    and "p \<in> {preCommitHook join workspacePath, commitMsgHook join workspacePath,
               postCheckoutHook join workspacePath, prePushHook join workspacePath}"
  shows "\<exists>content. files fs' p = Some content \<and> str_includes content extensionSignature"
    and "refuses fs' = refuses fs"
proof -
  from assms(1) obtain preCommit commitMsg prePush postCheckout fs1 where
    r: "preCommitContent config = Inr preCommit" "commitMsgContent config = Inr commitMsg"
       "prePushContent config = Inr prePush" "postCheckoutContent config = Inr postCheckout"
    and d: "(if existsSync fs (hooksDir join workspacePath) then Some fs
                else mkdirSync fs (hooksDir join workspacePath)) = Some fs1"
    and w: "write_all fs1
                [(preCommitHook join workspacePath, preCommit),
                 (commitMsgHook join workspacePath, commitMsg),
                 (postCheckoutHook join workspacePath, postCheckout),
                 (prePushHook join workspacePath, prePush)] = (fs', Installed)"
    by (cases rule: installGitHooks_cases [of join fs workspacePath config])
       (auto split: option.splits)
  let ?ps = "[(preCommitHook join workspacePath, preCommit),
                 (commitMsgHook join workspacePath, commitMsg),
                 (postCheckoutHook join workspacePath, postCheckout),
                 (prePushHook join workspacePath, prePush)]"
  from write_all_Installed [OF w] have f: "files fs' = files fs1 ++ map_of (rev ?ps)" .
  from assms(2) have "p \<in> fst ` set ?ps" by auto
  from written_last [OF this, of "files fs1"] f obtain content where
    c: "files fs' p = Some content" "(p, content) \<in> set ?ps"
    by auto
  from c(2) have "content \<in> {preCommit, commitMsg, postCheckout, prePush}" by auto
  with r have "str_includes content extensionSignature"
    using preCommitContent_signed commitMsgContent_signed postCheckoutContent_signed
      prePushContent_signed by blast
  with c(1) show "\<exists>content. files fs' p = Some content \<and> str_includes content extensionSignature"
    by blast
  from write_all_frame [OF w] ensure_dir(2) [OF d] show "refuses fs' = refuses fs" by simp
qed








text \<open>
  C7, as the code has it by design. After \<open>removeGitHooks\<close>, \<open>updateStatusBar\<close> shows
  the hooks as not installed, except in one case: it showed them as installed before and
  the deletion of the pre-commit file is refused. \<open>removeGitHooks\<close> catches that error,
  the file stays, and the hooks are still shown as installed.
\<close>

theorem remove_then_detect:
  "updateStatusBar join (removeGitHooks join fs workspacePath) (workspacePath # others) =
     (if updateStatusBar join fs (workspacePath # others) = Active \<and>
         refuses fs Unlink (join [hooksDir join workspacePath, ''pre-commit''])
      then Active else Ready) \<and>
   (\<not> refuses fs Unlink (join [hooksDir join workspacePath, ''pre-commit'']) \<longrightarrow>
      updateStatusBar join (removeGitHooks join fs workspacePath) (workspacePath # others)
        = Ready)"
proof -
  let ?p = "preCommitHook join workspacePath"
  have p: "?p = join [hooksDir join workspacePath, ''pre-commit'']"
    by (simp add: preCommitHook_def)
  have "hooksInstalled join (removeGitHooks join fs workspacePath) workspacePath \<longleftrightarrow>
      hooksInstalled join fs workspacePath \<and> refuses fs Unlink ?p"
    unfolding hooksInstalled_iff removeGitHooks_files removeGitHooks_frame
    by (auto simp: removable_iff)
  then show ?thesis
    unfolding p [symmetric]
    by (simp add: updateStatusBar_def getWorkspacePath_def)
qed

text \<open>
  C7 as stated fails. In a hooks directory without write permission the pre-commit file of
  this extension cannot be deleted: after \<open>removeGitHooks\<close> the hooks are still shown as
  installed.
\<close>

theorem remove_fails_in_readonly_directory:
  "updateStatusBar posix_join readonly_fs [''/repo''] = Active \<and>
   updateStatusBar posix_join (removeGitHooks posix_join readonly_fs ''/repo'') [''/repo'']
     = Active"
  by code_simp

theorem remove_then_detect_witness:
  "\<not> refuses (fst (installGitHooks posix_join fresh_fs ''/repo'' default_config)) Unlink
        (posix_join [hooksDir posix_join ''/repo'', ''pre-commit'']) \<and>
   updateStatusBar posix_join (fst (installGitHooks posix_join fresh_fs ''/repo'' default_config))
     [''/repo''] = Active \<and>
   updateStatusBar posix_join
     (removeGitHooks posix_join
        (fst (installGitHooks posix_join fresh_fs ''/repo'' default_config)) ''/repo'')
     [''/repo''] = Ready"
proof -
  let ?fs = "fst (installGitHooks posix_join fresh_fs ''/repo'' default_config)"
  have 1: "\<not> refuses ?fs Unlink (posix_join [hooksDir posix_join ''/repo'', ''pre-commit''])"
    by code_simp
  have 2: "updateStatusBar posix_join ?fs [''/repo''] = Active"
    by code_simp
  from remove_then_detect [of posix_join ?fs "''/repo''" "[]"] 1
  have "updateStatusBar posix_join (removeGitHooks posix_join ?fs ''/repo'') [''/repo''] = Ready"
    by blast
  with 1 2 show ?thesis by blast
qed


lemma remove_after_edit:
  assumes i: "installGitHooks join fs workspacePath config = (fs1, Installed)"
    and e: "\<not> str_includes edited extensionSignature"
    and ok: "\<And>q. q \<in> {preCommitHook join workspacePath, commitMsgHook join workspacePath,
               postCheckoutHook join workspacePath, prePushHook join workspacePath} \<Longrightarrow>
             \<not> refuses fs Read q \<and> \<not> refuses fs Unlink q"
  shows "files (removeGitHooks join (fs1\<lparr>files := (files fs1)(h \<mapsto> edited)\<rparr>) workspacePath) h
           = Some edited"
    and "q \<in> {preCommitHook join workspacePath, commitMsgHook join workspacePath,
               postCheckoutHook join workspacePath, prePushHook join workspacePath} \<Longrightarrow>
         q \<noteq> h \<Longrightarrow>
         (\<exists>content. files (fs1\<lparr>files := (files fs1)(h \<mapsto> edited)\<rparr>) q = Some content \<and>
            str_includes content extensionSignature) \<and>
         files (removeGitHooks join (fs1\<lparr>files := (files fs1)(h \<mapsto> edited)\<rparr>) workspacePath) q
           = None"
proof -
  let ?fs2 = "fs1\<lparr>files := (files fs1)(h \<mapsto> edited)\<rparr>"
  let ?four = "{preCommitHook join workspacePath, commitMsgHook join workspacePath,
               postCheckoutHook join workspacePath, prePushHook join workspacePath}"
  have r: "refuses ?fs2 = refuses fs"
    using installed_files(2) [OF i, of "preCommitHook join workspacePath"] by simp
  from e have "\<not> removable ?fs2 h" by (simp add: removable_def)
  then show "files (removeGitHooks join ?fs2 workspacePath) h = Some edited"
    unfolding removeGitHooks_files by simp
  assume q: "q \<in> ?four" and ne: "q \<noteq> h"
  from installed_files(1) [OF i q] obtain content where
    c: "files fs1 q = Some content" "str_includes content extensionSignature"
    by blast
  with ne have c2: "files ?fs2 q = Some content" by simp
  from ok [OF q] r have "\<not> refuses ?fs2 Read q" "\<not> refuses ?fs2 Unlink q" by simp_all
  with c2 c(2) have "removable ?fs2 q" unfolding removable_iff by blast
  with q have "files (removeGitHooks join ?fs2 workspacePath) q = None"
    unfolding removeGitHooks_files by (simp only: if_True simp_thms)
  with c2 c(2) show "(\<exists>content. files ?fs2 q = Some content \<and>
            str_includes content extensionSignature) \<and>
         files (removeGitHooks join ?fs2 workspacePath) q = None"
    by blast
qed

text \<open>
  C8, as the code has it by design. \<open>removeGitHooks\<close> deletes exactly those of the four
  hook files pre-commit, commit-msg, pre-push and post-checkout that exist as regular
  files, can be read, contain the signature and can be deleted; a failed read or delete is
  caught and the file stays. Every other file, and every directory, is as before. In
  particular: after a successful install, the user replaces the content of one hook file
  by a text without the signature; when no read or delete of a hook file is refused,
  \<open>removeGitHooks\<close> leaves that file with the user's text, and each of the other hook
  files, which is there and carries the signature, is deleted.
\<close>

theorem remove_deletes_signed_hooks_only:
  "(\<forall>p. files (removeGitHooks join fs workspacePath) p =
      (if (\<exists>name \<in> {''pre-commit'', ''commit-msg'', ''pre-push'', ''post-checkout''}.
             p = join [hooksDir join workspacePath, name]) \<and>
          (\<exists>content. files fs p = Some content \<and> str_includes content extensionSignature \<and>
             \<not> refuses fs Read p \<and> \<not> refuses fs Unlink p)
       then None else files fs p)) \<and>
   dirs (removeGitHooks join fs workspacePath) = dirs fs \<and>
   (installGitHooks join fs workspacePath config = (fs1, Installed) \<and>
    (\<exists>name \<in> {''pre-commit'', ''commit-msg'', ''pre-push'', ''post-checkout''}.
       h = join [hooksDir join workspacePath, name]) \<and>
    \<not> str_includes edited extensionSignature \<and>
    (\<forall>name \<in> {''pre-commit'', ''commit-msg'', ''pre-push'', ''post-checkout''}.
       \<not> refuses fs Read (join [hooksDir join workspacePath, name]) \<and>
       \<not> refuses fs Unlink (join [hooksDir join workspacePath, name])) \<longrightarrow>
      files (removeGitHooks join (fs1\<lparr>files := (files fs1)(h \<mapsto> edited)\<rparr>) workspacePath) h
        = Some edited \<and>
      (\<forall>name \<in> {''pre-commit'', ''commit-msg'', ''pre-push'', ''post-checkout''}.
         join [hooksDir join workspacePath, name] \<noteq> h \<longrightarrow>
           (\<exists>content.
              files (fs1\<lparr>files := (files fs1)(h \<mapsto> edited)\<rparr>)
                (join [hooksDir join workspacePath, name]) = Some content \<and>
              str_includes content extensionSignature) \<and>
           files (removeGitHooks join (fs1\<lparr>files := (files fs1)(h \<mapsto> edited)\<rparr>) workspacePath)
             (join [hooksDir join workspacePath, name]) = None))"
proof (intro conjI allI impI)
  fix p
  show "files (removeGitHooks join fs workspacePath) p =
      (if (\<exists>name \<in> {''pre-commit'', ''commit-msg'', ''pre-push'', ''post-checkout''}.
             p = join [hooksDir join workspacePath, name]) \<and>
          (\<exists>content. files fs p = Some content \<and> str_includes content extensionSignature \<and>
             \<not> refuses fs Read p \<and> \<not> refuses fs Unlink p)
       then None else files fs p)"
    unfolding hook_names removable_iff [symmetric] by (rule removeGitHooks_files)
next
  show "dirs (removeGitHooks join fs workspacePath) = dirs fs"
    by (rule removeGitHooks_frame)
next
  let ?fs2 = "fs1\<lparr>files := (files fs1)(h \<mapsto> edited)\<rparr>"
  assume a: "installGitHooks join fs workspacePath config = (fs1, Installed) \<and>
    (\<exists>name \<in> {''pre-commit'', ''commit-msg'', ''pre-push'', ''post-checkout''}.
       h = join [hooksDir join workspacePath, name]) \<and>
    \<not> str_includes edited extensionSignature \<and>
    (\<forall>name \<in> {''pre-commit'', ''commit-msg'', ''pre-push'', ''post-checkout''}.
       \<not> refuses fs Read (join [hooksDir join workspacePath, name]) \<and>
       \<not> refuses fs Unlink (join [hooksDir join workspacePath, name]))"
  note i = a [THEN conjunct1]
    and e = a [THEN conjunct2, THEN conjunct2, THEN conjunct1]
    and all = a [THEN conjunct2, THEN conjunct2, THEN conjunct2]
  have ok: "\<And>q. q \<in> {preCommitHook join workspacePath, commitMsgHook join workspacePath,
               postCheckoutHook join workspacePath, prePushHook join workspacePath} \<Longrightarrow>
      \<not> refuses fs Read q \<and> \<not> refuses fs Unlink q"
  proof -
    fix q
    assume "q \<in> {preCommitHook join workspacePath, commitMsgHook join workspacePath,
               postCheckoutHook join workspacePath, prePushHook join workspacePath}"
    then have "\<exists>name \<in> {''pre-commit'', ''commit-msg'', ''pre-push'', ''post-checkout''}.
        q = join [hooksDir join workspacePath, name]"
      by (rule hook_names [THEN iffD2])
    then obtain name where n: "name \<in> {''pre-commit'', ''commit-msg'', ''pre-push'', ''post-checkout''}"
      and q: "q = join [hooksDir join workspacePath, name]"
      by (rule bexE)
    from all [THEN bspec, OF n] show "\<not> refuses fs Read q \<and> \<not> refuses fs Unlink q"
      unfolding q .
  qed
  from remove_after_edit(1) [OF i e ok]
  show "files (removeGitHooks join ?fs2 workspacePath) h = Some edited" .
  show "\<forall>name \<in> {''pre-commit'', ''commit-msg'', ''pre-push'', ''post-checkout''}.
           join [hooksDir join workspacePath, name] \<noteq> h \<longrightarrow>
           (\<exists>content. files ?fs2 (join [hooksDir join workspacePath, name]) = Some content \<and>
              str_includes content extensionSignature) \<and>
           files (removeGitHooks join ?fs2 workspacePath)
             (join [hooksDir join workspacePath, name]) = None"
  proof (intro ballI impI)
    fix name
    assume n: "name \<in> {''pre-commit'', ''commit-msg'', ''pre-push'', ''post-checkout''}"
      and ne: "join [hooksDir join workspacePath, name] \<noteq> h"
    have "\<exists>n \<in> {''pre-commit'', ''commit-msg'', ''pre-push'', ''post-checkout''}.
        join [hooksDir join workspacePath, name] = join [hooksDir join workspacePath, n]"
      using n by (rule bexI [rotated]) (rule refl)
    then have q: "join [hooksDir join workspacePath, name] \<in>
        {preCommitHook join workspacePath, commitMsgHook join workspacePath,
         postCheckoutHook join workspacePath, prePushHook join workspacePath}"
      by (rule hook_names [THEN iffD1])
    from remove_after_edit(2) [OF i e ok q ne]
    show "(\<exists>content. files ?fs2 (join [hooksDir join workspacePath, name]) = Some content \<and>
              str_includes content extensionSignature) \<and>
           files (removeGitHooks join ?fs2 workspacePath)
             (join [hooksDir join workspacePath, name]) = None" .
  qed
qed

text \<open>
  C8 as stated fails. In a hooks directory without write permission the commit-msg hook of
  this extension exists and contains the signature, and \<open>removeGitHooks\<close> does not
  delete it.
\<close>

theorem signed_hook_survives_remove:
  "posix_join [hooksDir posix_join ''/repo'', ''commit-msg''] = ''/repo/.git/hooks/commit-msg'' \<and>
   (case files readonly_fs ''/repo/.git/hooks/commit-msg'' of
      None \<Rightarrow> False
    | Some content \<Rightarrow> str_includes content extensionSignature) \<and>
   files (removeGitHooks posix_join readonly_fs ''/repo'') ''/repo/.git/hooks/commit-msg''
     = files readonly_fs ''/repo/.git/hooks/commit-msg''"
  by code_simp

theorem remove_deletes_signed_hooks_only_witness:
  "files (removeGitHooks posix_join edited_fs ''/repo'') ''/repo/.git/hooks/pre-push''
     = Some ''#!/bin/sh\<newline>make test\<newline>'' \<and>
   (\<exists>content. files edited_fs ''/repo/.git/hooks/pre-commit'' = Some content \<and>
      str_includes content extensionSignature) \<and>
   files (removeGitHooks posix_join edited_fs ''/repo'') ''/repo/.git/hooks/pre-commit'' = None \<and>
   files (removeGitHooks posix_join edited_fs ''/repo'') ''/repo/.git/hooks/commit-msg'' = None \<and>
   files (removeGitHooks posix_join edited_fs ''/repo'') ''/repo/.git/hooks/post-checkout'' = None \<and>
   files (removeGitHooks posix_join edited_fs ''/repo'') ''/repo/.git/config''
     = files edited_fs ''/repo/.git/config''"
proof -
  let ?h = "''/repo/.git/hooks/pre-push''"
  let ?e = "''#!/bin/sh\<newline>make test\<newline>''"
  have "snd (installGitHooks posix_join fresh_fs ''/repo'' default_config) = Installed"
    by code_simp
  then have i: "installGitHooks posix_join fresh_fs ''/repo'' default_config
      = (installed_fs, Installed)"
    unfolding installed_fs_def by (metis prod.collapse)
  have h: "\<exists>name \<in> {''pre-commit'', ''commit-msg'', ''pre-push'', ''post-checkout''}.
      ?h = posix_join [hooksDir posix_join ''/repo'', name]"
    by (simp add: hooksDir_def posix_join_def)
  have e: "\<not> str_includes ?e extensionSignature"
    by code_simp
  have ok: "\<forall>name \<in> {''pre-commit'', ''commit-msg'', ''pre-push'', ''post-checkout''}.
       \<not> refuses fresh_fs Read (posix_join [hooksDir posix_join ''/repo'', name]) \<and>
       \<not> refuses fresh_fs Unlink (posix_join [hooksDir posix_join ''/repo'', name])"
    by (simp add: fresh_fs_def)
  have p: "posix_join [hooksDir posix_join ''/repo'', ''pre-commit''] = ''/repo/.git/hooks/pre-commit''"
    "posix_join [hooksDir posix_join ''/repo'', ''commit-msg''] = ''/repo/.git/hooks/commit-msg''"
    "posix_join [hooksDir posix_join ''/repo'', ''post-checkout''] = ''/repo/.git/hooks/post-checkout''"
    by (simp_all add: hooksDir_def posix_join_def)
  have n: "''pre-commit'' \<in> {''pre-commit'', ''commit-msg'', ''pre-push'', ''post-checkout''}"
    "''commit-msg'' \<in> {''pre-commit'', ''commit-msg'', ''pre-push'', ''post-checkout''}"
    "''post-checkout'' \<in> {''pre-commit'', ''commit-msg'', ''pre-push'', ''post-checkout''}"
    by simp_all
  have d: "''/repo/.git/hooks/pre-commit'' \<noteq> ?h" "''/repo/.git/hooks/commit-msg'' \<noteq> ?h"
    "''/repo/.git/hooks/post-checkout'' \<noteq> ?h"
    by simp_all
  have ed: "installed_fs\<lparr>files := (files installed_fs)(?h \<mapsto> ?e)\<rparr> = edited_fs"
    by (simp add: edited_fs_def)
  note t = remove_deletes_signed_hooks_only
    [of posix_join fresh_fs "''/repo''" default_config installed_fs ?h ?e]
  note scenario = t [THEN conjunct2, THEN conjunct2, THEN mp,
    OF conjI [OF i conjI [OF h conjI [OF e ok]]], unfolded ed]
  note s = scenario [THEN conjunct1]
  note o = scenario [THEN conjunct2]
  note 1 = o [THEN bspec, OF n(1), unfolded p, THEN mp, OF d(1)]
  note 2 = o [THEN bspec, OF n(2), unfolded p, THEN mp, OF d(2)]
  note 3 = o [THEN bspec, OF n(3), unfolded p, THEN mp, OF d(3)]
  have "\<not> (\<exists>name \<in> {''pre-commit'', ''commit-msg'', ''pre-push'', ''post-checkout''}.
      ''/repo/.git/config'' = posix_join [hooksDir posix_join ''/repo'', name])"
    by (simp add: hooksDir_def posix_join_def)
  with remove_deletes_signed_hooks_only
    [of posix_join edited_fs "''/repo''" default_config installed_fs ?h ?e,
     THEN conjunct1, THEN spec, of "''/repo/.git/config''"]
  have 4: "files (removeGitHooks posix_join edited_fs ''/repo'') ''/repo/.git/config''
     = files edited_fs ''/repo/.git/config''"
    by (simp only: simp_thms if_False)
  from s 1 2 3 4 show ?thesis by blast
qed

text \<open>
  C10, as the code has it by design. \<open>deactivate\<close> removes, for every workspace folder,
  each of the four hook files pre-commit, commit-msg, pre-push and post-checkout that
  exists as a regular file, can be read, contains the signature and can be deleted; a
  failed read or delete is caught and the file stays. Every other file, and every
  directory, is as before.
\<close>

theorem deactivate_removes_signed_hooks:
  "(\<forall>p. files (deactivate join fs workspaceFolders) p =
      (if (\<exists>folder \<in> set workspaceFolders.
             \<exists>name \<in> {''pre-commit'', ''commit-msg'', ''pre-push'', ''post-checkout''}.
               p = join [hooksDir join folder, name]) \<and>
          (\<exists>content. files fs p = Some content \<and> str_includes content extensionSignature \<and>
             \<not> refuses fs Read p \<and> \<not> refuses fs Unlink p)
       then None else files fs p)) \<and>
   dirs (deactivate join fs workspaceFolders) = dirs fs"
proof (intro conjI allI)
  fix p
  show "files (deactivate join fs workspaceFolders) p =
      (if (\<exists>folder \<in> set workspaceFolders.
             \<exists>name \<in> {''pre-commit'', ''commit-msg'', ''pre-push'', ''post-checkout''}.
               p = join [hooksDir join folder, name]) \<and>
          (\<exists>content. files fs p = Some content \<and> str_includes content extensionSignature \<and>
             \<not> refuses fs Read p \<and> \<not> refuses fs Unlink p)
       then None else files fs p)"
    unfolding hook_names removable_iff [symmetric] by (rule deactivate_files)
next
  show "dirs (deactivate join fs workspaceFolders) = dirs fs"
    using deactivate_frame by blast
qed

text \<open>
  C10 as stated fails. In a hooks directory without write permission the pre-commit hook
  of this extension carries the signature, and \<open>deactivate\<close> does not delete it.
\<close>

theorem deactivate_keeps_undeletable_hook:
  "posix_join [hooksDir posix_join ''/repo'', ''pre-commit''] = ''/repo/.git/hooks/pre-commit'' \<and>
   (case files readonly_fs ''/repo/.git/hooks/pre-commit'' of
      None \<Rightarrow> False
    | Some content \<Rightarrow> str_includes content extensionSignature) \<and>
   files (deactivate posix_join readonly_fs [''/repo'']) ''/repo/.git/hooks/pre-commit''
     = files readonly_fs ''/repo/.git/hooks/pre-commit''"
  by code_simp

theorem deactivate_removes_signed_hooks_witness:
  "files (deactivate posix_join edited_fs [''/repo'', ''/other'']) ''/repo/.git/hooks/pre-commit''
     = None \<and>
   files (deactivate posix_join edited_fs [''/repo'', ''/other'']) ''/repo/.git/hooks/pre-push''
     = Some ''#!/bin/sh\<newline>make test\<newline>''"
proof -
  have 1: "\<exists>folder \<in> set [''/repo'', ''/other''].
      \<exists>name \<in> {''pre-commit'', ''commit-msg'', ''pre-push'', ''post-checkout''}.
        ''/repo/.git/hooks/pre-commit'' = posix_join [hooksDir posix_join folder, name]"
    by (simp add: hooksDir_def posix_join_def)
  have 2: "(case files edited_fs ''/repo/.git/hooks/pre-commit'' of
       None \<Rightarrow> False
     | Some content \<Rightarrow> str_includes content extensionSignature) \<and>
     \<not> refuses edited_fs Read ''/repo/.git/hooks/pre-commit'' \<and>
     \<not> refuses edited_fs Unlink ''/repo/.git/hooks/pre-commit''"
    by code_simp
  then have 3: "\<exists>content. files edited_fs ''/repo/.git/hooks/pre-commit'' = Some content \<and>
      str_includes content extensionSignature \<and>
      \<not> refuses edited_fs Read ''/repo/.git/hooks/pre-commit'' \<and>
      \<not> refuses edited_fs Unlink ''/repo/.git/hooks/pre-commit''"
    by (auto split: option.splits)
  have 4: "files edited_fs ''/repo/.git/hooks/pre-push'' = Some ''#!/bin/sh\<newline>make test\<newline>''"
    by (simp add: edited_fs_def)
  have 5: "\<not> str_includes ''#!/bin/sh\<newline>make test\<newline>'' extensionSignature"
    by code_simp
  note t = deactivate_removes_signed_hooks [of posix_join edited_fs "[''/repo'', ''/other'']"]
  from t 1 3 have a: "files (deactivate posix_join edited_fs [''/repo'', ''/other''])
      ''/repo/.git/hooks/pre-commit'' = None"
    by (simp del: set_simps)
  from t 4 5 have b: "files (deactivate posix_join edited_fs [''/repo'', ''/other''])
      ''/repo/.git/hooks/pre-push'' = Some ''#!/bin/sh\<newline>make test\<newline>''"
    by simp
  from a b show ?thesis by blast
qed

end
